theory Spec2Isabelle
  imports Complex_Main "HOL-Library.Monad_Syntax"
begin

section \<open>JavaScript values\<close>

text \<open>
  The scripts read response bodies with \<^verbatim>\<open>JSON.parse\<close> and walk the result with
  property accesses, \<^verbatim>\<open>&&\<close> and truth tests. A value is one of JavaScript's:
  \<open>Undefined\<close> is what reading a missing property gives. Numbers are rationals (the
  exact value of the double). An object is the list of its properties; where a key
  occurs twice the first occurrence is the property. A computation that may throw has
  an \<open>option\<close> type,
  \<open>None\<close> being the thrown exception: every \<^verbatim>\<open>catch\<close> of the scripts catches all
  exceptions alike.
\<close>

datatype jsval =
    Undefined
  | Null
  | Bool bool
  | Num rat
  | Str string
  | Arr "jsval list"
  | Obj "(string \<times> jsval) list"

text \<open>ToBoolean: what \<^verbatim>\<open>if (v)\<close>, \<^verbatim>\<open>!v\<close>, \<^verbatim>\<open>v && w\<close> and \<^verbatim>\<open>v || w\<close> test.\<close>

fun truthy :: "jsval \<Rightarrow> bool" where
  "truthy Undefined = False"
| "truthy Null = False"
| "truthy (Bool b) = b"
| "truthy (Num n) = (n \<noteq> 0)"
| "truthy (Str s) = (s \<noteq> [])"
| "truthy (Arr xs) = True"
| "truthy (Obj kvs) = True"

text \<open>
  \<^verbatim>\<open>v.k\<close>: a TypeError on \<^verbatim>\<open>undefined\<close> and \<^verbatim>\<open>null\<close>; the own property of an
  object; \<^verbatim>\<open>length\<close> of an array or a string; \<^verbatim>\<open>undefined\<close> otherwise. The scripts
  read the keys \<^verbatim>\<open>data\<close>, \<^verbatim>\<open>accessToken\<close>, \<^verbatim>\<open>content\<close>, \<^verbatim>\<open>length\<close>, \<^verbatim>\<open>id\<close> and
  \<^verbatim>\<open>listingId\<close>, none of which a prototype defines.
\<close>

fun get :: "jsval \<Rightarrow> string \<Rightarrow> jsval option" where
  "get Undefined k = None"
| "get Null k = None"
| "get (Obj kvs) k = Some (case map_of kvs k of None \<Rightarrow> Undefined | Some v \<Rightarrow> v)"
| "get (Arr xs) k = Some (if k = ''length'' then Num (of_nat (length xs)) else Undefined)"
| "get (Str s) k = Some (if k = ''length'' then Num (of_nat (length s)) else Undefined)"
| "get (Bool b) k = Some Undefined"
| "get (Num n) k = Some Undefined"

text \<open>\<^verbatim>\<open>v[0]\<close>: the first element of an array, the first character of a string.\<close>

fun index0 :: "jsval \<Rightarrow> jsval option" where
  "index0 Undefined = None"
| "index0 Null = None"
| "index0 (Arr xs) = Some (case xs of [] \<Rightarrow> Undefined | x # _ \<Rightarrow> x)"
| "index0 (Str s) = Some (case s of [] \<Rightarrow> Undefined | c # _ \<Rightarrow> Str [c])"
| "index0 (Obj kvs) = Some (case map_of kvs ''0'' of None \<Rightarrow> Undefined | Some v \<Rightarrow> v)"
| "index0 (Bool b) = Some Undefined"
| "index0 (Num n) = Some Undefined"

text \<open>\<^verbatim>\<open>Array.isArray(v)\<close>.\<close>

fun isArray :: "jsval \<Rightarrow> bool" where
  "isArray (Arr xs) = True"
| "isArray v = False"

text \<open>
  \<^verbatim>\<open>v > 0\<close>. A number is compared as it is, \<^verbatim>\<open>undefined\<close> is NaN, \<^verbatim>\<open>null\<close> is 0,
  a boolean is 0 or 1, an object is NaN. A string or an array is first converted to a
  number by the runtime (StringToNumber, on doubles): that answer is the parameter
  \<open>coerce\<close>.
\<close>

fun gt0 :: "(jsval \<Rightarrow> bool) \<Rightarrow> jsval \<Rightarrow> bool" where
  "gt0 coerce Undefined = False"
| "gt0 coerce Null = False"
| "gt0 coerce (Bool b) = b"
| "gt0 coerce (Num n) = (0 < n)"
| "gt0 coerce (Str s) = coerce (Str s)"
| "gt0 coerce (Arr xs) = coerce (Arr xs)"
| "gt0 coerce (Obj kvs) = False"

text \<open>\<^verbatim>\<open>try { return e } catch { return d }\<close>\<close>

definition try_catch :: "'a option \<Rightarrow> 'a \<Rightarrow> 'a" where
  "try_catch e d = (case e of None \<Rightarrow> d | Some v \<Rightarrow> v)"

section \<open>The HTTP exchange and the metrics\<close>

text \<open>
  What one call of \<^verbatim>\<open>http.get\<close>, \<^verbatim>\<open>http.post\<close> or \<^verbatim>\<open>http.put\<close> gives the script:
  \<open>status\<close> is \<^verbatim>\<open>res.status\<close> (0 when the transport failed), \<open>body\<close> is the result of
  \<^verbatim>\<open>JSON.parse(res.body)\<close>, \<open>None\<close> when it throws (\<^verbatim>\<open>JSON.parse(null)\<close> is \<^verbatim>\<open>null\<close>),
  \<open>timings_duration\<close> is \<^verbatim>\<open>res.timings.duration\<close>, and \<open>elapsed\<close> is the difference
  \<^verbatim>\<open>new Date() - startTime\<close> the script measures around the call, in milliseconds.
\<close>

record response =
  status :: int
  body :: "jsval option"
  timings_duration :: rat
  elapsed :: int

definition JSON_parse :: "response \<Rightarrow> jsval option" where
  "JSON_parse r = body r"

text \<open>
  A template literal is the list of its parts: an interpolated value stays a value, and
  \<open>ToFixed2 x\<close> stands for the text of \<^verbatim>\<open>x.toFixed(2)\<close>. A computed number may be
  \<^verbatim>\<open>NaN\<close>.
  A request is its method, its URL and the token of its \<^verbatim>\<open>Authorization\<close> header
  (\<open>None\<close> for a request without one); payloads are left out.
\<close>

datatype num = NaN | Fin rat

datatype part = Lit string | Val jsval | ToFixed2 num

record request =
  verb :: string
  url :: "part list"
  bearer :: "jsval option"

text \<open>
  The module-level state of a script: the observations added to its metrics, in the
  order of the \<^verbatim>\<open>add\<close> calls, each with the name its metric was created with, and the
  requests sent. \<^verbatim>\<open>sleep\<close>, \<^verbatim>\<open>console.log\<close> and the \<^verbatim>\<open>group\<close> tags touch neither.
\<close>

record world =
  metrics :: "(string \<times> int) list"
  sent :: "request list"

definition add :: "string \<Rightarrow> int \<Rightarrow> world \<Rightarrow> world" where
  "add name v w = w\<lparr>metrics := metrics w @ [(name, v)]\<rparr>"

definition send :: "string \<Rightarrow> part list \<Rightarrow> jsval option \<Rightarrow> world \<Rightarrow> world" where
  "send m u t w = w\<lparr>sent := sent w @ [\<lparr>verb = m, url = u, bearer = t\<rparr>]\<rparr>"

text \<open>The observations of one metric.\<close>

definition observations :: "string \<Rightarrow> world \<Rightarrow> int list" where
  "observations name w = map snd (filter (\<lambda>p. fst p = name) (metrics w))"

text \<open>\<^verbatim>\<open>check(res, {...})\<close>: true when every predicate returns a truthy value.\<close>

definition check :: "response \<Rightarrow> (response \<Rightarrow> jsval) list \<Rightarrow> bool" where
  "check res preds = list_all (\<lambda>p. truthy (p res)) preds"

definition BASE_URL :: string where
  "BASE_URL = ''https://dev.api.smartrent.io.vn''"

text \<open>The names the metrics are created with.\<close>

abbreviation "errorRate \<equiv> ''errors''"
abbreviation "loginDuration \<equiv> ''login_duration''"
abbreviation "listingsDuration \<equiv> ''get_listings_duration''"
abbreviation "listingDetailDuration \<equiv> ''listing_detail_duration''"
abbreviation "saveListingDuration \<equiv> ''save_listing_duration''"
abbreviation "searchDuration \<equiv> ''search_duration''"
abbreviation "createListingDuration \<equiv> ''create_listing_duration''"
abbreviation "pushListingDuration \<equiv> ''push_listing_duration''"
abbreviation "successfulOperations \<equiv> ''successful_operations''"

text \<open>The check predicates several steps share.\<close>

definition status_is :: "int list \<Rightarrow> response \<Rightarrow> jsval" where
  "status_is codes r = Bool (status r \<in> set codes)"

definition response_time_below :: "rat \<Rightarrow> response \<Rightarrow> jsval" where
  "response_time_below ms r = Bool (timings_duration r < ms)"

text \<open>
  \<^verbatim>\<open>try { const body = JSON.parse(r.body); return body.data !== undefined; } catch { return false; }\<close>
\<close>

definition has_data :: "response \<Rightarrow> jsval" where
  "has_data r =
     try_catch (do { b \<leftarrow> JSON_parse r; d \<leftarrow> get b ''data''; Some (Bool (d \<noteq> Undefined)) })
       (Bool False)"

text \<open>
  \<^verbatim>\<open>try { const body = JSON.parse(r.body); return body.data && body.data.k; } catch { return false; }\<close>
\<close>

definition has_data_field :: "string \<Rightarrow> response \<Rightarrow> jsval" where
  "has_data_field k r =
     try_catch (do { b \<leftarrow> JSON_parse r; d \<leftarrow> get b ''data'';
                     if truthy d then get d k else Some d })
       (Bool False)"

section \<open>scenarios/user-journey-test.js\<close>

subsection \<open>login\<close>

definition uj_login_success :: "response \<Rightarrow> bool" where
  "uj_login_success res = check res [status_is [200], has_data_field ''accessToken'']"

definition uj_login :: "response \<Rightarrow> world \<Rightarrow> (jsval \<times> world) option" where
  "uj_login res w0 =
     (let w1 = send ''POST'' [Lit BASE_URL, Lit ''/v1/auth''] None w0;
          w2 = add loginDuration (elapsed res) w1
      in if \<not> uj_login_success res then Some (Null, add errorRate 1 w2)
         else
           let w3 = add errorRate 0 w2;
               w4 = add successfulOperations 1 w3
           in do { b \<leftarrow> JSON_parse res; d \<leftarrow> get b ''data''; t \<leftarrow> get d ''accessToken'';
                   Some (t, w4) })"

subsection \<open>The groups of the iteration\<close>

text \<open>\<^verbatim>\<open>a || b\<close>\<close>

definition js_or :: "jsval \<Rightarrow> jsval \<Rightarrow> jsval" where
  "js_or a b = (if truthy a then a else b)"

text \<open>
  Group 2, Browse Listings. On success the first listing's id is read inside a
  \<^verbatim>\<open>try\<close>; when the read throws, or the content is empty, \<open>listingId\<close> keeps its value.
\<close>

definition uj_browse_success :: "response \<Rightarrow> bool" where
  "uj_browse_success res = check res [status_is [200], has_data_field ''content'']"

definition uj_first_listing_id :: "(jsval \<Rightarrow> bool) \<Rightarrow> response \<Rightarrow> jsval \<Rightarrow> jsval" where
  "uj_first_listing_id coerce res listingId =
     try_catch
       (do { b \<leftarrow> JSON_parse res; d \<leftarrow> get b ''data''; c \<leftarrow> get d ''content'';
             if truthy c
             then do { l \<leftarrow> get c ''length'';
                       if gt0 coerce l then do { e \<leftarrow> index0 c; get e ''id'' }
                       else Some listingId }
             else Some listingId })
       listingId"

definition uj_browse ::
  "(jsval \<Rightarrow> bool) \<Rightarrow> response \<Rightarrow> jsval \<Rightarrow> jsval \<Rightarrow> world \<Rightarrow> jsval \<times> world" where
  "uj_browse coerce res token listingId w0 =
     (let w1 = send ''GET'' [Lit BASE_URL, Lit ''/v1/listings?page=1&size=10''] (Some token) w0;
          w2 = add listingsDuration (elapsed res) w1
      in if uj_browse_success res
         then (uj_first_listing_id coerce res listingId,
               add errorRate 0 (add successfulOperations 1 w2))
         else (listingId, add errorRate 1 w2))"

text \<open>Group 3, View Listing Detail.\<close>

definition uj_detail_success :: "response \<Rightarrow> bool" where
  "uj_detail_success res = check res [status_is [200], has_data_field ''id'']"

definition uj_detail :: "response \<Rightarrow> jsval \<Rightarrow> jsval \<Rightarrow> world \<Rightarrow> world" where
  "uj_detail res token listingId w0 =
     (let w1 = send ''GET'' [Lit BASE_URL, Lit ''/v1/listings/'', Val listingId] (Some token) w0;
          w2 = add listingDetailDuration (elapsed res) w1;
          success = uj_detail_success res;
          w3 = add errorRate (if success then 0 else 1) w2
      in if success then add successfulOperations 1 w3 else w3)"

text \<open>Group 4, Save Listing.\<close>

definition uj_save_success :: "response \<Rightarrow> bool" where
  "uj_save_success res = check res [status_is [200, 201, 409]]"

definition uj_save :: "response \<Rightarrow> jsval \<Rightarrow> world \<Rightarrow> world" where
  "uj_save res token w0 =
     (let w1 = send ''POST'' [Lit BASE_URL, Lit ''/v1/saved-listings''] (Some token) w0;
          w2 = add saveListingDuration (elapsed res) w1;
          success = uj_save_success res;
          w3 = add errorRate (if success then 0 else 1) w2
      in if success then add successfulOperations 1 w3 else w3)"

text \<open>
  Groups 5 to 8, the four searches: they differ in their payload and in their checks
  (the search by address also wants a body with \<^verbatim>\<open>data\<close>).
\<close>

definition uj_search_address_success :: "response \<Rightarrow> bool" where
  "uj_search_address_success res = check res [status_is [200], has_data]"

definition uj_search_success :: "response \<Rightarrow> bool" where
  "uj_search_success res = check res [status_is [200]]"

definition uj_search_address :: "response \<Rightarrow> jsval \<Rightarrow> world \<Rightarrow> world" where
  "uj_search_address res token w0 =
     (let w1 = send ''POST'' [Lit BASE_URL, Lit ''/v1/listings/search''] (Some token) w0;
          w2 = add searchDuration (elapsed res) w1;
          success = uj_search_address_success res;
          w3 = add errorRate (if success then 0 else 1) w2
      in if success then add successfulOperations 1 w3 else w3)"

definition uj_search :: "response \<Rightarrow> jsval \<Rightarrow> world \<Rightarrow> world" where
  "uj_search res token w0 =
     (let w1 = send ''POST'' [Lit BASE_URL, Lit ''/v1/listings/search''] (Some token) w0;
          w2 = add searchDuration (elapsed res) w1;
          success = uj_search_success res;
          w3 = add errorRate (if success then 0 else 1) w2
      in if success then add successfulOperations 1 w3 else w3)"

text \<open>
  Group 9, Create Listing. A failed check is recorded as 0 all the same (the source:
  \<^verbatim>\<open>errorRate.add(0); // Don't count as error for this specific case\<close>).
\<close>

definition uj_create_success :: "response \<Rightarrow> bool" where
  "uj_create_success res = check res [status_is [200, 201]]"

definition created_id :: "response \<Rightarrow> jsval \<Rightarrow> jsval" where
  "created_id res createdListingId =
     try_catch
       (do { b \<leftarrow> JSON_parse res; d \<leftarrow> get b ''data'';
             if truthy d
             then do { i \<leftarrow> get d ''id''; Some (if truthy i then i else createdListingId) }
             else Some createdListingId })
       createdListingId"

definition uj_create :: "response \<Rightarrow> jsval \<Rightarrow> jsval \<Rightarrow> world \<Rightarrow> jsval \<times> world" where
  "uj_create res token createdListingId w0 =
     (let w1 = send ''POST'' [Lit BASE_URL, Lit ''/v1/listings''] (Some token) w0;
          w2 = add createListingDuration (elapsed res) w1
      in if uj_create_success res
         then (created_id res createdListingId,
               add errorRate 0 (add successfulOperations 1 w2))
         else (createdListingId, add errorRate 0 w2))"

text \<open>
  Group 10, Push Listing. The check accepts 400 (no quota); the counter of successful
  operations counts 200 and 201 only.
\<close>

definition uj_push_success :: "response \<Rightarrow> bool" where
  "uj_push_success res = check res [status_is [200, 201, 400]]"

definition uj_push :: "response \<Rightarrow> jsval \<Rightarrow> world \<Rightarrow> world" where
  "uj_push res token w0 =
     (let w1 = send ''POST'' [Lit BASE_URL, Lit ''/v1/pushes/push''] (Some token) w0;
          w2 = add pushListingDuration (elapsed res) w1;
          success = uj_push_success res;
          w3 = add errorRate (if success then 0 else 1) w2
      in if status res = 200 \<or> status res = 201 then add successfulOperations 1 w3 else w3)"

subsection \<open>The default function\<close>

text \<open>
  One iteration. \<open>rs n\<close> is the response to the request of group \<open>n\<close>, should the group
  send it. The three variables start as \<^verbatim>\<open>null\<close>. The result is \<open>None\<close> when an
  exception leaves the function.
\<close>

definition uj_default :: "(jsval \<Rightarrow> bool) \<Rightarrow> (nat \<Rightarrow> response) \<Rightarrow> world \<Rightarrow> world option" where
  "uj_default coerce rs w0 =
     (let token = Null; listingId = Null; createdListingId = Null
      in case uj_login (rs 1) w0 of
           None \<Rightarrow> None
         | Some (token, w1) \<Rightarrow>
             if \<not> truthy token then Some w1
             else
               let (listingId, w2) = uj_browse coerce (rs 2) token listingId w1;
                   w4 = (if truthy listingId
                         then uj_save (rs 4) token (uj_detail (rs 3) token listingId w2)
                         else w2);
                   w5 = uj_search_address (rs 5) token w4;
                   w6 = uj_search (rs 6) token w5;
                   w7 = uj_search (rs 7) token w6;
                   w8 = uj_search (rs 8) token w7;
                   (createdListingId, w9) = uj_create (rs 9) token createdListingId w8
               in Some (if truthy (js_or createdListingId listingId)
                        then uj_push (rs 10) token w9
                        else w9))"

section \<open>The admin journey (unnamed/part_000)\<close>

abbreviation "adminLoginDuration \<equiv> ''admin_login_duration''"
abbreviation "filterListingsDuration \<equiv> ''admin_filter_listings_duration''"
abbreviation "updateStatusDuration \<equiv> ''admin_update_status_duration''"
abbreviation "getReportsDuration \<equiv> ''admin_get_reports_duration''"
abbreviation "resolveReportDuration \<equiv> ''admin_resolve_report_duration''"

definition adminLogin_success :: "response \<Rightarrow> bool" where
  "adminLogin_success res = check res [status_is [200], has_data_field ''accessToken'']"

definition adminLogin :: "response \<Rightarrow> world \<Rightarrow> (jsval \<times> world) option" where
  "adminLogin res w0 =
     (let w1 = send ''POST'' [Lit BASE_URL, Lit ''/v1/auth/admin''] None w0;
          w2 = add adminLoginDuration (elapsed res) w1
      in if \<not> adminLogin_success res then Some (Null, add errorRate 1 w2)
         else
           let w3 = add errorRate 0 w2;
               w4 = add successfulOperations 1 w3
           in do { b \<leftarrow> JSON_parse res; d \<leftarrow> get b ''data''; t \<leftarrow> get d ''accessToken'';
                   Some (t, w4) })"

text \<open>
  \<^verbatim>\<open>if (body.data && Array.isArray(body.data) && body.data.length > 0) v = body.data[0].k;\<close>
  inside a \<^verbatim>\<open>try\<close> whose \<^verbatim>\<open>catch\<close> ignores the exception: groups 2 and 7 read the
  pending listing's id and the report's id this way.
\<close>

definition first_of_data :: "(jsval \<Rightarrow> bool) \<Rightarrow> string \<Rightarrow> response \<Rightarrow> jsval \<Rightarrow> jsval" where
  "first_of_data coerce k res v =
     try_catch
       (do { b \<leftarrow> JSON_parse res; d \<leftarrow> get b ''data'';
             if truthy d \<and> isArray d
             then do { l \<leftarrow> get d ''length'';
                       if gt0 coerce l then do { e \<leftarrow> index0 d; get e k }
                       else Some v }
             else Some v })
       v"

text \<open>Group 2, Filter: Pending Listings.\<close>

definition admin_filter_pending_success :: "response \<Rightarrow> bool" where
  "admin_filter_pending_success res = check res [status_is [200], has_data]"

definition admin_filter_pending ::
  "(jsval \<Rightarrow> bool) \<Rightarrow> response \<Rightarrow> jsval \<Rightarrow> jsval \<Rightarrow> world \<Rightarrow> jsval \<times> world" where
  "admin_filter_pending coerce res token pendingListingId w0 =
     (let w1 = send ''POST'' [Lit BASE_URL, Lit ''/v1/listings/search''] (Some token) w0;
          w2 = add filterListingsDuration (elapsed res) w1
      in if admin_filter_pending_success res
         then (first_of_data coerce ''listingId'' res pendingListingId,
               add errorRate 0 (add successfulOperations 1 w2))
         else (pendingListingId, add errorRate 1 w2))"

text \<open>Groups 3, 4 and 5, the other filters: the same request, one check.\<close>

definition admin_filter_success :: "response \<Rightarrow> bool" where
  "admin_filter_success res = check res [status_is [200]]"

definition admin_filter :: "response \<Rightarrow> jsval \<Rightarrow> world \<Rightarrow> world" where
  "admin_filter res token w0 =
     (let w1 = send ''POST'' [Lit BASE_URL, Lit ''/v1/listings/search''] (Some token) w0;
          w2 = add filterListingsDuration (elapsed res) w1;
          success = admin_filter_success res;
          w3 = add errorRate (if success then 0 else 1) w2
      in if success then add successfulOperations 1 w3 else w3)"


definition admin_update :: "response \<Rightarrow> jsval \<Rightarrow> jsval \<Rightarrow> world \<Rightarrow> world" where
  "admin_update res token pendingListingId w0 =
     (let w1 = send ''PUT''
                 [Lit BASE_URL, Lit ''/v1/admin/listings/'', Val pendingListingId, Lit ''/status'']
                 (Some token) w0;
          w2 = add updateStatusDuration (elapsed res) w1
      in if status res = 200
         then add errorRate 0 (add successfulOperations 1 w2)
         else add errorRate 0 w2)"


definition admin_reports ::
  "(jsval \<Rightarrow> bool) \<Rightarrow> response \<Rightarrow> jsval \<Rightarrow> jsval \<Rightarrow> jsval \<Rightarrow> world \<Rightarrow> jsval \<times> world" where
  "admin_reports coerce res token pendingListingId reportId w0 =
     (let targetListingId = js_or pendingListingId (Num 1);
          w1 = send ''GET''
                 [Lit BASE_URL, Lit ''/v1/listings/'', Val targetListingId, Lit ''/reports'']
                 (Some token) w0;
          w2 = add getReportsDuration (elapsed res) w1
      in if status res = 200
         then (first_of_data coerce ''id'' res reportId,
               add errorRate 0 (add successfulOperations 1 w2))
         else (reportId, add errorRate 0 w2))"


definition admin_resolve :: "response \<Rightarrow> jsval \<Rightarrow> jsval \<Rightarrow> world \<Rightarrow> world" where
  "admin_resolve res token reportId w0 =
     (let w1 = send ''PUT''
                 [Lit BASE_URL, Lit ''/v1/admin/reports/'', Val reportId, Lit ''/resolve'']
                 (Some token) w0;
          w2 = add resolveReportDuration (elapsed res) w1;
          w3 = (if status res = 200 then add successfulOperations 1 w2 else w2)
      in add errorRate 0 w3)"

definition admin_default ::
  "(jsval \<Rightarrow> bool) \<Rightarrow> (nat \<Rightarrow> response) \<Rightarrow> world \<Rightarrow> world option" where
  "admin_default coerce rs w0 =
     (let token = Null; pendingListingId = Null; reportId = Null
      in case adminLogin (rs 1) w0 of
           None \<Rightarrow> None
         | Some (token, w1) \<Rightarrow>
             if \<not> truthy token then Some w1
             else
               let (pendingListingId, w2) =
                     admin_filter_pending coerce (rs 2) token pendingListingId w1;
                   w3 = admin_filter (rs 3) token w2;
                   w4 = admin_filter (rs 4) token w3;
                   w5 = admin_filter (rs 5) token w4;
                   w6 = (if truthy pendingListingId
                         then admin_update (rs 6) token pendingListingId w5
                         else w5);
                   (reportId, w7) =
                     admin_reports coerce (rs 7) token pendingListingId reportId w6
               in Some (if truthy reportId
                        then admin_resolve (rs 8) token reportId w7
                        else w7))"

section \<open>script/smartrent-full-api-test.js\<close>

abbreviation "myListingsDuration \<equiv> ''my_listings_duration''"
abbreviation "statsProvinceDuration \<equiv> ''stats_province_duration''"
abbreviation "statsCategoryDuration \<equiv> ''stats_category_duration''"

definition full_login_success :: "response \<Rightarrow> bool" where
  "full_login_success res = check res [status_is [200], has_data_field ''accessToken'']"

definition full_login :: "response \<Rightarrow> world \<Rightarrow> (jsval \<times> world) option" where
  "full_login res w0 =
     (let w1 = send ''POST'' [Lit BASE_URL, Lit ''/v1/auth''] None w0;
          w2 = add loginDuration (elapsed res) w1
      in if \<not> full_login_success res then Some (Null, add errorRate 1 w2)
         else
           let w3 = add errorRate 0 w2;
               w4 = add successfulOperations 1 w3
           in do { b \<leftarrow> JSON_parse res; d \<leftarrow> get b ''data''; t \<leftarrow> get d ''accessToken'';
                   Some (t, w4) })"

text \<open>
  \<^verbatim>\<open>try { const body = JSON.parse(r.body);
        return body.data && Array.isArray(body.data) && body.data.length > 0; }
  catch { return false; }\<close>
\<close>

definition has_data_array :: "(jsval \<Rightarrow> bool) \<Rightarrow> response \<Rightarrow> jsval" where
  "has_data_array coerce r =
     try_catch
       (do { b \<leftarrow> JSON_parse r; d \<leftarrow> get b ''data'';
             if truthy d
             then (if isArray d then do { l \<leftarrow> get d ''length''; Some (Bool (gt0 coerce l)) }
                   else Some (Bool False))
             else Some d })
       (Bool False)"

text \<open>Group 2, Get Listings (public).\<close>

definition full_listings_success :: "(jsval \<Rightarrow> bool) \<Rightarrow> response \<Rightarrow> bool" where
  "full_listings_success coerce res =
     check res [status_is [200], has_data_array coerce, response_time_below 2000]"

definition full_listings ::
  "(jsval \<Rightarrow> bool) \<Rightarrow> response \<Rightarrow> jsval \<Rightarrow> world \<Rightarrow> jsval \<times> world" where
  "full_listings coerce res listingId w0 =
     (let w1 = send ''GET'' [Lit BASE_URL, Lit ''/v1/listings?page=1&size=10''] None w0;
          w2 = add listingsDuration (elapsed res) w1
      in if full_listings_success coerce res
         then (first_of_data coerce ''listingId'' res listingId,
               add errorRate 0 (add successfulOperations 1 w2))
         else (listingId, add errorRate 1 w2))"

text \<open>Group 3, Listing Detail.\<close>

definition full_detail_success :: "response \<Rightarrow> bool" where
  "full_detail_success res =
     check res [status_is [200], has_data_field ''listingId'', response_time_below 500]"

definition full_detail :: "response \<Rightarrow> jsval \<Rightarrow> world \<Rightarrow> world" where
  "full_detail res listingId w0 =
     (let w1 = send ''GET'' [Lit BASE_URL, Lit ''/v1/listings/'', Val listingId] None w0;
          w2 = add listingDetailDuration (elapsed res) w1;
          success = full_detail_success res;
          w3 = add errorRate (if success then 0 else 1) w2
      in if success then add successfulOperations 1 w3 else w3)"

text \<open>Group 4, My Listings (protected).\<close>

definition full_my_listings_success :: "response \<Rightarrow> bool" where
  "full_my_listings_success res =
     check res [status_is [200], has_data, response_time_below 2000]"

definition full_my_listings :: "response \<Rightarrow> jsval \<Rightarrow> world \<Rightarrow> world" where
  "full_my_listings res token w0 =
     (let w1 = send ''GET'' [Lit BASE_URL, Lit ''/v1/listings?page=1&size=10&mine=true'']
                 (Some token) w0;
          w2 = add myListingsDuration (elapsed res) w1;
          success = full_my_listings_success res;
          w3 = add errorRate (if success then 0 else 1) w2
      in if success then add successfulOperations 1 w3 else w3)"

text \<open>Groups 5 and 6, the statistics by province and by category.\<close>

definition full_stats_success :: "response \<Rightarrow> bool" where
  "full_stats_success res = check res [status_is [200], has_data, response_time_below 1000]"

definition full_stats_province :: "response \<Rightarrow> world \<Rightarrow> world" where
  "full_stats_province res w0 =
     (let w1 = send ''POST'' [Lit BASE_URL, Lit ''/v1/listings/stats/provinces''] None w0;
          w2 = add statsProvinceDuration (elapsed res) w1;
          success = full_stats_success res;
          w3 = add errorRate (if success then 0 else 1) w2
      in if success then add successfulOperations 1 w3 else w3)"

definition full_stats_category :: "response \<Rightarrow> world \<Rightarrow> world" where
  "full_stats_category res w0 =
     (let w1 = send ''POST'' [Lit BASE_URL, Lit ''/v1/listings/stats/categories''] None w0;
          w2 = add statsCategoryDuration (elapsed res) w1;
          success = full_stats_success res;
          w3 = add errorRate (if success then 0 else 1) w2
      in if success then add successfulOperations 1 w3 else w3)"

text \<open>Group 7, Save Listing.\<close>

definition full_save_success :: "response \<Rightarrow> bool" where
  "full_save_success res = check res [status_is [200, 201, 409], response_time_below 1000]"

definition full_save :: "response \<Rightarrow> jsval \<Rightarrow> world \<Rightarrow> world" where
  "full_save res token w0 =
     (let w1 = send ''POST'' [Lit BASE_URL, Lit ''/v1/saved-listings''] (Some token) w0;
          w2 = add saveListingDuration (elapsed res) w1;
          success = full_save_success res;
          w3 = add errorRate (if success then 0 else 1) w2
      in if success then add successfulOperations 1 w3 else w3)"


definition full_create :: "response \<Rightarrow> jsval \<Rightarrow> jsval \<Rightarrow> world \<Rightarrow> jsval \<times> world" where
  "full_create res token createdListingId w0 =
     (let w1 = send ''POST'' [Lit BASE_URL, Lit ''/v1/listings''] (Some token) w0;
          w2 = add createListingDuration (elapsed res) w1
      in if status res = 200 \<or> status res = 201
         then (created_id res createdListingId,
               add errorRate 0 (add successfulOperations 1 w2))
         else (createdListingId, add errorRate 0 w2))"

text \<open>Group 9, Push Listing.\<close>

definition full_push_success :: "response \<Rightarrow> bool" where
  "full_push_success res = check res [status_is [200, 201, 400, 403]]"

definition full_push :: "response \<Rightarrow> jsval \<Rightarrow> world \<Rightarrow> world" where
  "full_push res token w0 =
     (let w1 = send ''POST'' [Lit BASE_URL, Lit ''/v1/pushes/push''] (Some token) w0;
          w2 = add pushListingDuration (elapsed res) w1;
          success = full_push_success res;
          w3 = (if status res = 200 \<or> status res = 201
                then add successfulOperations 1 w2 else w2)
      in add errorRate (if success then 0 else 1) w3)"

definition full_default ::
  "(jsval \<Rightarrow> bool) \<Rightarrow> (nat \<Rightarrow> response) \<Rightarrow> world \<Rightarrow> world option" where
  "full_default coerce rs w0 =
     (let token = Null; listingId = Null; createdListingId = Null
      in case full_login (rs 1) w0 of
           None \<Rightarrow> None
         | Some (token, w1) \<Rightarrow>
             if \<not> truthy token then Some w1
             else
               let (listingId, w2) = full_listings coerce (rs 2) listingId w1;
                   w3 = (if truthy listingId then full_detail (rs 3) listingId w2 else w2);
                   w4 = full_my_listings (rs 4) token w3;
                   w5 = full_stats_province (rs 5) w4;
                   w6 = full_stats_category (rs 6) w5;
                   w7 = (if truthy listingId then full_save (rs 7) token w6 else w6);
                   (createdListingId, w8) = full_create (rs 8) token createdListingId w7
               in Some (if truthy (js_or createdListingId listingId)
                        then full_push (rs 9) token w8
                        else w8))"

section \<open>script/smartrent-api-test.js\<close>

text \<open>
  This script has the error rate and four trends, and no counter of successful
  operations. Its public groups run whether the login gave a token or not.
\<close>

definition api_login_success :: "response \<Rightarrow> bool" where
  "api_login_success res = check res [status_is [200], has_data_field ''accessToken'']"

definition api_login :: "response \<Rightarrow> world \<Rightarrow> (jsval \<times> world) option" where
  "api_login res w0 =
     (let w1 = send ''POST'' [Lit BASE_URL, Lit ''/v1/auth''] None w0;
          w2 = add loginDuration (elapsed res) w1
      in if \<not> api_login_success res then Some (Null, add errorRate 1 w2)
         else
           let w3 = add errorRate 0 w2
           in do { b \<leftarrow> JSON_parse res; d \<leftarrow> get b ''data''; t \<leftarrow> get d ''accessToken'';
                   Some (t, w3) })"

definition api_get_listings :: "response \<Rightarrow> world \<Rightarrow> world" where
  "api_get_listings res w0 =
     (let w1 = send ''GET'' [Lit BASE_URL, Lit ''/v1/listings?page=1&size=10''] None w0;
          w2 = add listingsDuration (elapsed res) w1;
          success = check res [status_is [200], has_data, response_time_below 1000]
      in add errorRate (if success then 0 else 1) w2)"

definition api_search :: "response \<Rightarrow> world \<Rightarrow> world" where
  "api_search res w0 =
     (let w1 = send ''POST'' [Lit BASE_URL, Lit ''/v1/listings/search''] None w0;
          w2 = add searchDuration (elapsed res) w1;
          success = check res [status_is [200], has_data, response_time_below 2000]
      in add errorRate (if success then 0 else 1) w2)"

text \<open>
  The group \<^verbatim>\<open>GET /v1/listings/{id}\<close> asks for one listing first. Everything after
  that is inside one \<^verbatim>\<open>try\<close>, whose \<^verbatim>\<open>catch\<close> adds 1 to the error rate; only the
  reads before the second request can throw. \<open>api_sample_id\<close> is those reads:
  \<open>None\<close> when they throw, \<open>Some None\<close> when the condition is false.
\<close>

definition api_sample_id :: "(jsval \<Rightarrow> bool) \<Rightarrow> response \<Rightarrow> jsval option option" where
  "api_sample_id coerce listRes =
     do { b \<leftarrow> JSON_parse listRes; d \<leftarrow> get b ''data'';
          if truthy d
          then do { c \<leftarrow> get d ''content'';
                    if truthy c
                    then do { l \<leftarrow> get c ''length'';
                              if gt0 coerce l
                              then do { e \<leftarrow> index0 c; i \<leftarrow> get e ''id''; Some (Some i) }
                              else Some None }
                    else Some None }
          else Some None }"

definition api_listing_by_id ::
  "(jsval \<Rightarrow> bool) \<Rightarrow> response \<Rightarrow> response \<Rightarrow> world \<Rightarrow> world" where
  "api_listing_by_id coerce listRes res w0 =
     (let w1 = send ''GET'' [Lit BASE_URL, Lit ''/v1/listings?page=1&size=1''] None w0
      in if status listRes = 200
         then (case api_sample_id coerce listRes of
                 None \<Rightarrow> add errorRate 1 w1
               | Some None \<Rightarrow> w1
               | Some (Some listingId) \<Rightarrow>
                   let w2 = send ''GET'' [Lit BASE_URL, Lit ''/v1/listings/'', Val listingId]
                              None w1;
                       w3 = add listingDetailDuration (elapsed res) w2;
                       success = check res [status_is [200], has_data, response_time_below 500]
                   in add errorRate (if success then 0 else 1) w3)
         else w1)"

definition api_stats_provinces :: "response \<Rightarrow> world \<Rightarrow> world" where
  "api_stats_provinces res w0 =
     (let w1 = send ''POST'' [Lit BASE_URL, Lit ''/v1/listings/stats/provinces''] None w0;
          success = check res [status_is [200], response_time_below 1000]
      in add errorRate (if success then 0 else 1) w1)"

definition api_stats_categories :: "response \<Rightarrow> world \<Rightarrow> world" where
  "api_stats_categories res w0 =
     (let w1 = send ''POST'' [Lit BASE_URL, Lit ''/v1/listings/stats/categories''] None w0;
          success = check res [status_is [200], response_time_below 1000]
      in add errorRate (if success then 0 else 1) w1)"

definition api_my_listings :: "response \<Rightarrow> jsval \<Rightarrow> world \<Rightarrow> world" where
  "api_my_listings res token w0 =
     (let w1 = send ''GET'' [Lit BASE_URL, Lit ''/v1/listings?page=1&size=10&mine=true'']
                 (Some token) w0;
          success = check res [status_is [200], response_time_below 1000]
      in add errorRate (if success then 0 else 1) w1)"

text \<open>
  \<open>rs n\<close> is the response to the \<open>n\<close>-th request of the source text: the login, the
  listings, the search, the sample listing, its detail, the two statistics, and the
  caller's own listings.
\<close>

definition api_default ::
  "(jsval \<Rightarrow> bool) \<Rightarrow> (nat \<Rightarrow> response) \<Rightarrow> world \<Rightarrow> world option" where
  "api_default coerce rs w0 =
     (let token = Null
      in case api_login (rs 1) w0 of
           None \<Rightarrow> None
         | Some (token, w1) \<Rightarrow>
             let w2 = api_get_listings (rs 2) w1;
                 w3 = api_search (rs 3) w2;
                 w4 = api_listing_by_id coerce (rs 4) (rs 5) w3;
                 w5 = api_stats_provinces (rs 6) w4;
                 w6 = api_stats_categories (rs 7) w5
             in Some (if truthy token then api_my_listings (rs 8) token w6 else w6))"

section \<open>script/smartrent-core-api-test.js\<close>

text \<open>The login of the core script: as above, without the log line.\<close>

definition core_login_success :: "response \<Rightarrow> bool" where
  "core_login_success res = check res [status_is [200], has_data_field ''accessToken'']"

definition core_login :: "response \<Rightarrow> world \<Rightarrow> (jsval \<times> world) option" where
  "core_login res w0 =
     (let w1 = send ''POST'' [Lit BASE_URL, Lit ''/v1/auth''] None w0;
          w2 = add loginDuration (elapsed res) w1
      in if \<not> core_login_success res then Some (Null, add errorRate 1 w2)
         else
           let w3 = add errorRate 0 w2
           in do { b \<leftarrow> JSON_parse res; d \<leftarrow> get b ''data''; t \<leftarrow> get d ''accessToken'';
                   Some (t, w3) })"

section \<open>The summary of the run\<close>

text \<open>
  \<^verbatim>\<open>handleSummary(data)\<close> receives the final snapshot of the metrics. The summaries read
  \<^verbatim>\<open>data.metrics[name].values[stat]\<close> only: the snapshot is the map from the names of
  the metrics it holds to their \<^verbatim>\<open>values\<close>, and \<^verbatim>\<open>values\<close> maps the names of the
  statistics to numbers. Reading an absent key gives \<^verbatim>\<open>undefined\<close>, here \<open>None\<close>.
\<close>

type_synonym summary_data = "string \<rightharpoonup> (string \<rightharpoonup> rat)"

record options =
  indent :: "string option"
  enableColors :: bool

text \<open>\<^verbatim>\<open>v * c\<close> and \<^verbatim>\<open>v < c\<close> for a \<open>v\<close> that may be \<^verbatim>\<open>undefined\<close>, which is NaN as a number.\<close>

definition js_times :: "rat option \<Rightarrow> rat \<Rightarrow> num" where
  "js_times v c = (case v of None \<Rightarrow> NaN | Some x \<Rightarrow> Fin (x * c))"

definition ToNumber :: "rat option \<Rightarrow> num" where
  "ToNumber v = (case v of None \<Rightarrow> NaN | Some x \<Rightarrow> Fin x)"

fun js_less :: "num \<Rightarrow> rat \<Rightarrow> bool" where
  "js_less NaN c = False"
| "js_less (Fin x) c = (x < c)"

text \<open>\<^verbatim>\<open>v.toFixed(2)\<close>: a TypeError when \<open>v\<close> is \<^verbatim>\<open>undefined\<close>.\<close>

definition toFixed2 :: "rat option \<Rightarrow> part option" where
  "toFixed2 v = (case v of None \<Rightarrow> None | Some x \<Rightarrow> Some (ToFixed2 (Fin x)))"

text \<open>\<^verbatim>\<open>${v}\<close> for a number that may be \<^verbatim>\<open>undefined\<close>.\<close>

definition interpolate :: "rat option \<Rightarrow> part" where
  "interpolate v = Val (case v of None \<Rightarrow> Undefined | Some x \<Rightarrow> Num x)"

text \<open>\<^verbatim>\<open>xs.forEach(f)\<close>, for an \<open>f\<close> that extends the summary and may throw.\<close>

fun forEach :: "('a \<Rightarrow> 's \<Rightarrow> 's option) \<Rightarrow> 'a list \<Rightarrow> 's \<Rightarrow> 's option" where
  "forEach f [] s = Some s"
| "forEach f (x # xs) s = (case f x s of None \<Rightarrow> None | Some s' \<Rightarrow> forEach f xs s')"

text \<open>\<^verbatim>\<open>options.indent || ''\<close>\<close>

definition indent_of :: "options \<Rightarrow> string" where
  "indent_of opts = (case indent opts of None \<Rightarrow> [] | Some i \<Rightarrow> i)"

subsection \<open>The parts the two journeys share\<close>

text \<open>
  The line of a threshold on a 95th percentile. Nothing is written when the snapshot
  has no such metric.
\<close>

definition p95_threshold_line ::
  "summary_data \<Rightarrow> string \<Rightarrow> string \<Rightarrow> rat \<Rightarrow> string \<Rightarrow> part list option" where
  "p95_threshold_line data ind name target shown =
     (case data name of
        None \<Rightarrow> Some []
      | Some vals \<Rightarrow>
          let p95 = vals ''p(95)'';
              status = (if js_less (ToNumber p95) target then ''PASS'' else ''FAIL'')
          in do { f \<leftarrow> toFixed2 p95;
                  Some [Lit ind, Lit ''  ['', Lit status, Lit ''] '', Lit name, Lit '' p(95): '',
                        f, Lit ''ms (target: <'', Lit shown, Lit ''ms)\<newline>''] })"

text \<open>The line of a threshold on a rate, shown in percent.\<close>

definition rate_threshold_line ::
  "summary_data \<Rightarrow> string \<Rightarrow> string \<Rightarrow> rat \<Rightarrow> string \<Rightarrow> part list option" where
  "rate_threshold_line data ind name target shown =
     (case data name of
        None \<Rightarrow> Some []
      | Some vals \<Rightarrow>
          let failRate = js_times (vals ''rate'') 100;
              status = (if js_less failRate target then ''PASS'' else ''FAIL'')
          in Some [Lit ind, Lit ''  ['', Lit status, Lit ''] '', Lit name, Lit '' rate: '',
                   ToFixed2 failRate, Lit ''% (target: <'', Lit shown, Lit ''%)\<newline>''])"

text \<open>The body of \<^verbatim>\<open>metrics.forEach(m => ...)\<close>: the two lines of one step's trend.\<close>

definition step_lines ::
  "summary_data \<Rightarrow> string \<Rightarrow> string \<times> string \<Rightarrow> part list \<Rightarrow> part list option" where
  "step_lines data ind m summary =
     (case data (fst m) of
        None \<Rightarrow> Some summary
      | Some vals \<Rightarrow>
          do { a \<leftarrow> toFixed2 (vals ''avg''); p \<leftarrow> toFixed2 (vals ''p(95)'');
               Some (summary @
                 [Lit ind, Lit ''  '', Lit (snd m), Lit '':\<newline>'',
                  Lit ind, Lit ''    avg: '', a, Lit ''ms | p95: '', p, Lit ''ms\<newline>'']) })"

text \<open>The overall metrics: the requests and the successful operations.\<close>

definition requests_lines :: "summary_data \<Rightarrow> string \<Rightarrow> part list option" where
  "requests_lines data ind =
     (case data ''http_reqs'' of
        None \<Rightarrow> Some []
      | Some vals \<Rightarrow>
          do { r \<leftarrow> toFixed2 (vals ''rate'');
               Some [Lit ind, Lit ''  Total Requests: '', interpolate (vals ''count''),
                     Lit ''\<newline>'',
                     Lit ind, Lit ''  Request Rate: '', r, Lit ''/s\<newline>''] })"

definition count_line :: "summary_data \<Rightarrow> string \<Rightarrow> string \<Rightarrow> string \<Rightarrow> part list" where
  "count_line data ind name label =
     (case data name of
        None \<Rightarrow> []
      | Some vals \<Rightarrow> [Lit ind, Lit label, interpolate (vals ''count''), Lit ''\<newline>''])"

definition journey_textSummary ::
  "string \<Rightarrow> string \<Rightarrow> (string \<times> string) list \<Rightarrow> summary_data \<Rightarrow> options
     \<Rightarrow> part list option" where
  "journey_textSummary title heading steps data opts =
     (let ind = indent_of opts;
          summary = [Lit ''\<newline>'', Lit (replicate 70 CHR ''=''), Lit ''\<newline>'',
                     Lit ind, Lit title, Lit ''\<newline>'',
                     Lit (replicate 70 CHR ''=''), Lit ''\<newline>\<newline>'',
                     Lit ind, Lit ''THRESHOLDS\<newline>\<newline>'']
      in do { t1 \<leftarrow> p95_threshold_line data ind ''http_req_duration'' 3000 ''3000'';
              t2 \<leftarrow> rate_threshold_line data ind ''http_req_failed'' 10 ''10'';
              let summary = summary @ t1 @ t2 @ [Lit ''\<newline>'', Lit ind, Lit heading];
              summary \<leftarrow> forEach (step_lines data ind) steps summary;
              let summary = summary @ [Lit ''\<newline>'', Lit ind, Lit ''OVERALL METRICS\<newline>\<newline>''];
              rq \<leftarrow> requests_lines data ind;
              Some (summary @ rq @
                    count_line data ind ''successful_operations'' ''  Successful Operations: '' @
                    [Lit ''\<newline>'', Lit (replicate 70 CHR ''=''), Lit ''\<newline>'']) })"

subsection \<open>textSummary of scenarios/user-journey-test.js\<close>

definition uj_textSummary :: "summary_data \<Rightarrow> options \<Rightarrow> part list option" where
  "uj_textSummary =
     journey_textSummary ''SMARTRENT USER JOURNEY PERFORMANCE TEST RESULTS''
       ''API PERFORMANCE BY STEP\<newline>\<newline>''
       [(''login_duration'', ''1. Login''),
        (''get_listings_duration'', ''2. Get Listings''),
        (''listing_detail_duration'', ''3. Listing Detail''),
        (''save_listing_duration'', ''4. Save Listing''),
        (''search_duration'', ''5-8. Search/Filter''),
        (''create_listing_duration'', ''9. Create Listing''),
        (''push_listing_duration'', ''10. Push Listing'')]"

subsection \<open>textSummary of the admin journey\<close>

definition admin_textSummary :: "summary_data \<Rightarrow> options \<Rightarrow> part list option" where
  "admin_textSummary =
     journey_textSummary ''SMARTRENT ADMIN JOURNEY PERFORMANCE TEST RESULTS''
       ''ADMIN API PERFORMANCE\<newline>\<newline>''
       [(''admin_login_duration'', ''1. Admin Login''),
        (''admin_filter_listings_duration'', ''2-5. Filter Listings''),
        (''admin_update_status_duration'', ''6. Update Status''),
        (''admin_get_reports_duration'', ''7. Get Reports''),
        (''admin_resolve_report_duration'', ''8. Resolve Report'')]"

subsection \<open>textSummary of script/smartrent-full-api-test.js\<close>

text \<open>
  The characters of the source outside ASCII are the bytes of their UTF-8 encoding: the
  full block that opens a heading, the check mark and the ballot cross.
\<close>

definition full_block :: string where
  "full_block = [CHR 0xE2, CHR 0x96, CHR 0x88]"

definition check_mark :: string where
  "check_mark = [CHR 0xE2, CHR 0x9C, CHR 0x93]"

definition ballot_x :: string where
  "ballot_x = [CHR 0xE2, CHR 0x9C, CHR 0x97]"

definition full_p95_threshold_line :: "summary_data \<Rightarrow> string \<Rightarrow> part list option" where
  "full_p95_threshold_line data ind =
     (case data ''http_req_duration'' of
        None \<Rightarrow> Some []
      | Some vals \<Rightarrow>
          let p95 = vals ''p(95)'';
              status = (if js_less (ToNumber p95) 2000 then check_mark @ '' PASS''
                        else ballot_x @ '' FAIL'')
          in do { f \<leftarrow> toFixed2 p95;
                  Some [Lit ind, Lit ''  '', Lit status, Lit '' http_req_duration p(95): '', f,
                        Lit ''ms (target: <2000ms)\<newline>''] })"

definition full_rate_threshold_line ::
  "summary_data \<Rightarrow> string \<Rightarrow> string \<Rightarrow> part list option" where
  "full_rate_threshold_line data ind name =
     (case data name of
        None \<Rightarrow> Some []
      | Some vals \<Rightarrow>
          let failRate = js_times (vals ''rate'') 100;
              status = (if js_less failRate 5 then check_mark @ '' PASS''
                        else ballot_x @ '' FAIL'')
          in Some [Lit ind, Lit ''  '', Lit status, Lit '' '', Lit name, Lit '' rate: '',
                   ToFixed2 failRate, Lit ''% (target: <5%)\<newline>''])"

text \<open>The body of \<^verbatim>\<open>metrics.forEach\<close>: each entry has a key, a name and a target.\<close>

definition full_step_lines ::
  "summary_data \<Rightarrow> string \<Rightarrow> string \<times> string \<times> rat \<Rightarrow> part list \<Rightarrow> part list option" where
  "full_step_lines data ind m summary =
     (case data (fst m) of
        None \<Rightarrow> Some summary
      | Some vals \<Rightarrow>
          let avg = vals ''avg'';
              p95 = vals ''p(95)'';
              status = (if js_less (ToNumber p95) (snd (snd m)) then check_mark else ballot_x)
          in do { a \<leftarrow> toFixed2 avg; p \<leftarrow> toFixed2 p95;
                  Some (summary @
                    [Lit ind, Lit ''  '', Lit status, Lit '' '', Lit (fst (snd m)), Lit '':\<newline>'',
                     Lit ind, Lit ''      avg: '', a, Lit ''ms | p95: '', p,
                     Lit ''ms (target: <'', Val (Num (snd (snd m))), Lit ''ms)\<newline>'']) })"

definition full_response_time :: "summary_data \<Rightarrow> string \<Rightarrow> part list option" where
  "full_response_time data ind =
     (case data ''http_req_duration'' of
        None \<Rightarrow> Some []
      | Some vals \<Rightarrow>
          do { a \<leftarrow> toFixed2 (vals ''avg'');
               mn \<leftarrow> toFixed2 (vals ''min'');
               mx \<leftarrow> toFixed2 (vals ''max'');
               p90 \<leftarrow> toFixed2 (vals ''p(90)'');
               p95 \<leftarrow> toFixed2 (vals ''p(95)'');
               Some [Lit ind, Lit ''  Response Time:\<newline>'',
                     Lit ind, Lit ''      avg: '', a, Lit ''ms\<newline>'',
                     Lit ind, Lit ''      min: '', mn, Lit ''ms\<newline>'',
                     Lit ind, Lit ''      max: '', mx, Lit ''ms\<newline>'',
                     Lit ind, Lit ''      p90: '', p90, Lit ''ms\<newline>'',
                     Lit ind, Lit ''      p95: '', p95, Lit ''ms\<newline>''] })"

definition full_textSummary :: "summary_data \<Rightarrow> options \<Rightarrow> part list option" where
  "full_textSummary data opts =
     (let ind = indent_of opts;
          summary = [Lit ''\<newline>'', Lit (replicate 70 CHR ''=''), Lit ''\<newline>'',
                     Lit ind, Lit ''SMARTRENT FULL API PERFORMANCE TEST RESULTS\<newline>'',
                     Lit ind, Lit ''(Excluding Search API)\<newline>'',
                     Lit (replicate 70 CHR ''=''), Lit ''\<newline>\<newline>'',
                     Lit ind, Lit (full_block @ '' THRESHOLDS\<newline>\<newline>'')]
      in do { t1 \<leftarrow> full_p95_threshold_line data ind;
              t2 \<leftarrow> full_rate_threshold_line data ind ''http_req_failed'';
              t3 \<leftarrow> full_rate_threshold_line data ind ''errors'';
              let summary = summary @ t1 @ t2 @ t3 @
                    [Lit ''\<newline>'', Lit ind, Lit (full_block @ '' API PERFORMANCE\<newline>\<newline>'')];
              summary \<leftarrow> forEach (full_step_lines data ind)
                [(''login_duration'', ''1. Login'', 2000),
                 (''get_listings_duration'', ''2. Get Listings'', 2000),
                 (''listing_detail_duration'', ''3. Listing Detail'', 1000),
                 (''my_listings_duration'', ''4. My Listings'', 2000),
                 (''stats_province_duration'', ''5. Stats Province'', 1000),
                 (''stats_category_duration'', ''6. Stats Category'', 1000),
                 (''save_listing_duration'', ''7. Save Listing'', 1000),
                 (''create_listing_duration'', ''8. Create Listing'', 3000),
                 (''push_listing_duration'', ''9. Push Listing'', 1000)]
                summary;
              let summary = summary @
                    [Lit ''\<newline>'', Lit ind, Lit (full_block @ '' OVERALL METRICS\<newline>\<newline>'')];
              rq \<leftarrow> requests_lines data ind;
              let summary = summary @ rq @
                    count_line data ind ''iterations'' ''  Iterations: '' @
                    count_line data ind ''successful_operations'' ''  Successful Operations: '';
              rt \<leftarrow> full_response_time data ind;
              Some (summary @ rt @
                    [Lit ''\<newline>'', Lit (replicate 70 CHR ''=''), Lit ''\<newline>'']) })"

section \<open>Runs, aggregates and the vocabulary of the properties\<close>

text \<open>The state of a run that has not started: nothing observed, nothing sent.\<close>

definition fresh_world :: world where
  "fresh_world = \<lparr>metrics = [], sent = []\<rparr>"


text \<open>
  Modelled from the spec: the loop of the VU Scheduler, which is the k6 engine and not
  in the repository. A worker runs one iteration after the other; the iterations of a
  run, of all workers, are taken here in one sequence, each on the world the earlier
  ones left (the order does not change how many observations a metric gets, nor its
  rate). The engine catches an error that leaves an iteration; here it is kept visible:
  the run is \<open>None\<close> as soon as an iteration throws, so that a run that returns is a
  run none of whose iterations threw.
\<close>

fun run ::
  "((nat \<Rightarrow> response) \<Rightarrow> world \<Rightarrow> world option) \<Rightarrow> (nat \<Rightarrow> response) list \<Rightarrow> world
     \<Rightarrow> world option" where
  "run iteration [] w = Some w"
| "run iteration (rs # rss) w =
     (case iteration rs w of None \<Rightarrow> None | Some w' \<Rightarrow> run iteration rss w')"

text \<open>
  Modelled from the spec: the aggregate of a Rate metric, computed by the k6 engine:
  the fraction of the observations equal to 1, and 0 by convention when there is none.
\<close>

definition rate :: "int list \<Rightarrow> rat" where
  "rate xs = (if xs = [] then 0 else of_nat (length (filter (\<lambda>x. x = 1) xs)) / of_nat (length xs))"

text \<open>The token a login returns when its checks pass.\<close>

definition token_of :: "response \<Rightarrow> jsval" where
  "token_of res =
     try_catch (do { b \<leftarrow> JSON_parse res; d \<leftarrow> get b ''data''; get d ''accessToken'' }) Null"

text \<open>
  What one executed step leaves in the metric \<open>n\<close>: the time in its trend, one
  observation in the error rate, and 1 in the counter when it is counted.
\<close>

definition recorded :: "string \<Rightarrow> string \<Rightarrow> int \<Rightarrow> int \<Rightarrow> bool \<Rightarrow> int list" where
  "recorded n trend ms err counted =
     (if n = trend then [ms] else []) @ (if n = errorRate then [err] else []) @
     (if n = successfulOperations \<and> counted then [1] else [])"

text \<open>The value 0 or 1 that stands for passed or failed checks in the error rate.\<close>

definition err :: "bool \<Rightarrow> int" where
  "err success = (if success then 0 else 1)"

subsection \<open>The user journey\<close>

text \<open>The values of \<open>listingId\<close> and \<open>createdListingId\<close> after groups 2 and 9.\<close>

definition uj_listingId :: "(jsval \<Rightarrow> bool) \<Rightarrow> response \<Rightarrow> jsval" where
  "uj_listingId coerce res =
     (if uj_browse_success res then uj_first_listing_id coerce res Null else Null)"

definition uj_createdId :: "response \<Rightarrow> jsval" where
  "uj_createdId res = (if uj_create_success res then created_id res Null else Null)"

text \<open>What one iteration leaves in the metric \<open>n\<close>, step by step.\<close>

definition uj_obs :: "(jsval \<Rightarrow> bool) \<Rightarrow> (nat \<Rightarrow> response) \<Rightarrow> string \<Rightarrow> int list" where
  "uj_obs c rs n =
     recorded n loginDuration (elapsed (rs 1)) (err (uj_login_success (rs 1)))
       (uj_login_success (rs 1)) @
     (if uj_login_success (rs 1)
      then recorded n listingsDuration (elapsed (rs 2)) (err (uj_browse_success (rs 2)))
             (uj_browse_success (rs 2)) @
           (if truthy (uj_listingId c (rs 2))
            then recorded n listingDetailDuration (elapsed (rs 3))
                   (err (uj_detail_success (rs 3))) (uj_detail_success (rs 3)) @
                 recorded n saveListingDuration (elapsed (rs 4))
                   (err (uj_save_success (rs 4))) (uj_save_success (rs 4))
            else []) @
           recorded n searchDuration (elapsed (rs 5))
             (err (uj_search_address_success (rs 5))) (uj_search_address_success (rs 5)) @
           recorded n searchDuration (elapsed (rs 6))
             (err (uj_search_success (rs 6))) (uj_search_success (rs 6)) @
           recorded n searchDuration (elapsed (rs 7))
             (err (uj_search_success (rs 7))) (uj_search_success (rs 7)) @
           recorded n searchDuration (elapsed (rs 8))
             (err (uj_search_success (rs 8))) (uj_search_success (rs 8)) @
           recorded n createListingDuration (elapsed (rs 9)) 0 (uj_create_success (rs 9)) @
           (if truthy (js_or (uj_createdId (rs 9)) (uj_listingId c (rs 2)))
            then recorded n pushListingDuration (elapsed (rs 10))
                   (err (uj_push_success (rs 10)))
                   (status (rs 10) = 200 \<or> status (rs 10) = 201)
            else [])
      else [])"

subsection \<open>The admin journey\<close>

text \<open>The values of \<open>pendingListingId\<close> and \<open>reportId\<close> after groups 2 and 7.\<close>

definition admin_pendingId :: "(jsval \<Rightarrow> bool) \<Rightarrow> response \<Rightarrow> jsval" where
  "admin_pendingId coerce res =
     (if admin_filter_pending_success res then first_of_data coerce ''listingId'' res Null
      else Null)"

definition admin_reportId :: "(jsval \<Rightarrow> bool) \<Rightarrow> response \<Rightarrow> jsval" where
  "admin_reportId coerce res =
     (if status res = 200 then first_of_data coerce ''id'' res Null else Null)"

definition admin_obs :: "(jsval \<Rightarrow> bool) \<Rightarrow> (nat \<Rightarrow> response) \<Rightarrow> string \<Rightarrow> int list" where
  "admin_obs c rs n =
     recorded n adminLoginDuration (elapsed (rs 1)) (err (adminLogin_success (rs 1)))
       (adminLogin_success (rs 1)) @
     (if adminLogin_success (rs 1)
      then recorded n filterListingsDuration (elapsed (rs 2))
             (err (admin_filter_pending_success (rs 2))) (admin_filter_pending_success (rs 2)) @
           recorded n filterListingsDuration (elapsed (rs 3))
             (err (admin_filter_success (rs 3))) (admin_filter_success (rs 3)) @
           recorded n filterListingsDuration (elapsed (rs 4))
             (err (admin_filter_success (rs 4))) (admin_filter_success (rs 4)) @
           recorded n filterListingsDuration (elapsed (rs 5))
             (err (admin_filter_success (rs 5))) (admin_filter_success (rs 5)) @
           (if truthy (admin_pendingId c (rs 2))
            then recorded n updateStatusDuration (elapsed (rs 6)) 0 (status (rs 6) = 200)
            else []) @
           recorded n getReportsDuration (elapsed (rs 7)) 0 (status (rs 7) = 200) @
           (if truthy (admin_reportId c (rs 7))
            then recorded n resolveReportDuration (elapsed (rs 8)) 0 (status (rs 8) = 200)
            else [])
      else [])"




subsection \<open>The full API test\<close>

definition full_listingId :: "(jsval \<Rightarrow> bool) \<Rightarrow> response \<Rightarrow> jsval" where
  "full_listingId coerce res =
     (if full_listings_success coerce res then first_of_data coerce ''listingId'' res Null
      else Null)"

definition full_createdId :: "response \<Rightarrow> jsval" where
  "full_createdId res =
     (if status res = 200 \<or> status res = 201 then created_id res Null else Null)"

definition full_obs :: "(jsval \<Rightarrow> bool) \<Rightarrow> (nat \<Rightarrow> response) \<Rightarrow> string \<Rightarrow> int list" where
  "full_obs c rs n =
     recorded n loginDuration (elapsed (rs 1)) (err (full_login_success (rs 1)))
       (full_login_success (rs 1)) @
     (if full_login_success (rs 1)
      then recorded n listingsDuration (elapsed (rs 2)) (err (full_listings_success c (rs 2)))
             (full_listings_success c (rs 2)) @
           (if truthy (full_listingId c (rs 2))
            then recorded n listingDetailDuration (elapsed (rs 3))
                   (err (full_detail_success (rs 3))) (full_detail_success (rs 3))
            else []) @
           recorded n myListingsDuration (elapsed (rs 4))
             (err (full_my_listings_success (rs 4))) (full_my_listings_success (rs 4)) @
           recorded n statsProvinceDuration (elapsed (rs 5))
             (err (full_stats_success (rs 5))) (full_stats_success (rs 5)) @
           recorded n statsCategoryDuration (elapsed (rs 6))
             (err (full_stats_success (rs 6))) (full_stats_success (rs 6)) @
           (if truthy (full_listingId c (rs 2))
            then recorded n saveListingDuration (elapsed (rs 7))
                   (err (full_save_success (rs 7))) (full_save_success (rs 7))
            else []) @
           recorded n createListingDuration (elapsed (rs 8)) 0
             (status (rs 8) = 200 \<or> status (rs 8) = 201) @
           (if truthy (js_or (full_createdId (rs 8)) (full_listingId c (rs 2)))
            then recorded n pushListingDuration (elapsed (rs 9))
                   (err (full_push_success (rs 9)))
                   (status (rs 9) = 200 \<or> status (rs 9) = 201)
            else [])
      else [])"

subsection \<open>Snapshots\<close>


text \<open>The trends each summary lists, step by step.\<close>

definition uj_trends :: "string list" where
  "uj_trends = [''login_duration'', ''get_listings_duration'', ''listing_detail_duration'',
     ''save_listing_duration'', ''search_duration'', ''create_listing_duration'',
     ''push_listing_duration'']"

definition admin_trends :: "string list" where
  "admin_trends = [''admin_login_duration'', ''admin_filter_listings_duration'',
     ''admin_update_status_duration'', ''admin_get_reports_duration'',
     ''admin_resolve_report_duration'']"

definition full_trends :: "string list" where
  "full_trends = [''login_duration'', ''get_listings_duration'', ''listing_detail_duration'',
     ''my_listings_duration'', ''stats_province_duration'', ''stats_category_duration'',
     ''save_listing_duration'', ''create_listing_duration'', ''push_listing_duration'']"

subsection \<open>Sample inputs\<close>

text \<open>A request that never completed, and a login that gave a token.\<close>

definition transport_failure :: response where
  "transport_failure = \<lparr>status = 0, body = Some Null, timings_duration = 0, elapsed = 30000\<rparr>"


text \<open>An iteration whose every request fails, and one whose login alone goes through.\<close>

definition all_fail :: "nat \<Rightarrow> response" where
  "all_fail n = transport_failure"


text \<open>The runtime's conversion, for inputs that hold no string or array where a number is read.\<close>

definition no_coercion :: "jsval \<Rightarrow> bool" where
  "no_coercion v = False"






text \<open>The names of the metrics each summary reads.\<close>

definition uj_reads :: "string list" where
  "uj_reads = ''http_req_duration'' # ''http_req_failed'' # ''http_reqs'' #
     ''successful_operations'' # uj_trends"

definition admin_reads :: "string list" where
  "admin_reads = ''http_req_duration'' # ''http_req_failed'' # ''http_reqs'' #
     ''successful_operations'' # admin_trends"

definition full_reads :: "string list" where
  "full_reads = ''http_req_duration'' # ''http_req_failed'' # ''errors'' # ''http_reqs'' #
     ''iterations'' # ''successful_operations'' # full_trends"

text \<open>
  The snapshot of a slow run: the 95th percentile of the requests is 4 s and one request
  in fifty failed. The second snapshot holds one metric more, which no summary reads.
\<close>

definition slow_run :: summary_data where
  "slow_run =
     [''http_req_duration'' \<mapsto>
        [''avg'' \<mapsto> 900, ''min'' \<mapsto> 100, ''max'' \<mapsto> 5000, ''p(90)'' \<mapsto> 3500,
         ''p(95)'' \<mapsto> 4000],
      ''http_req_failed'' \<mapsto> [''rate'' \<mapsto> 1 / 50]]"

definition slow_run_vus :: summary_data where
  "slow_run_vus = slow_run(''vus'' \<mapsto> [''value'' \<mapsto> 10])"


text \<open>The options \<^verbatim>\<open>handleSummary\<close> passes.\<close>

definition summary_options :: options where
  "summary_options = \<lparr>indent = Some '' '', enableColors = True\<rparr>"

section \<open>What a step leaves in the metrics\<close>

lemma observations_add:
  "observations n (add m v w) = observations n w @ (if m = n then [v] else [])"
  by (simp add: observations_def add_def)

lemma observations_send: "observations n (send m u t w) = observations n w"
  by (simp add: observations_def send_def)

lemma observations_fresh: "observations n fresh_world = []"
  by (simp add: observations_def fresh_world_def)

lemma login_token:
  assumes "check res [status_is [200], has_data_field ''accessToken'']"
  shows "do { b \<leftarrow> JSON_parse res; d \<leftarrow> get b ''data''; t \<leftarrow> get d ''accessToken'';
              Some (t, w) } = Some (token_of res, w)"
  using assms
  by (auto simp: check_def has_data_field_def try_catch_def token_of_def
           split: option.splits if_splits Option.bind_splits)

lemma login_truthy:
  assumes "check res [status_is [200], has_data_field ''accessToken'']"
  shows "truthy (token_of res)"
  using assms
  by (auto simp: check_def has_data_field_def try_catch_def token_of_def
           split: option.splits if_splits Option.bind_splits)

subsection \<open>The user journey\<close>

lemma uj_login_eq:
  "uj_login res w =
     Some (if uj_login_success res
           then (token_of res,
                 add successfulOperations 1 (add errorRate 0 (add loginDuration (elapsed res)
                   (send ''POST'' [Lit BASE_URL, Lit ''/v1/auth''] None w))))
           else (Null, add errorRate 1 (add loginDuration (elapsed res)
                   (send ''POST'' [Lit BASE_URL, Lit ''/v1/auth''] None w))))"
  by (simp add: uj_login_def uj_login_success_def Let_def login_token)

lemma uj_login_truthy: "uj_login_success res \<Longrightarrow> truthy (token_of res)"
  by (simp add: uj_login_success_def login_truthy)

lemma uj_login_obs:
  "observations n (snd (the (uj_login res w))) =
     observations n w @
     recorded n loginDuration (elapsed res) (err (uj_login_success res)) (uj_login_success res)"
  by (simp add: uj_login_eq observations_add observations_send recorded_def err_def)

lemma uj_browse_fst: "fst (uj_browse c res t Null w) = uj_listingId c res"
  by (simp add: uj_browse_def uj_listingId_def Let_def)

lemma uj_browse_obs:
  "observations n (snd (uj_browse c res t l w)) =
     observations n w @
     recorded n listingsDuration (elapsed res) (err (uj_browse_success res))
       (uj_browse_success res)"
  by (simp add: uj_browse_def Let_def observations_add observations_send recorded_def err_def)

lemma uj_detail_obs:
  "observations n (uj_detail res t l w) =
     observations n w @
     recorded n listingDetailDuration (elapsed res) (err (uj_detail_success res))
       (uj_detail_success res)"
  by (simp add: uj_detail_def Let_def observations_add observations_send recorded_def err_def)

lemma uj_save_obs:
  "observations n (uj_save res t w) =
     observations n w @
     recorded n saveListingDuration (elapsed res) (err (uj_save_success res))
       (uj_save_success res)"
  by (simp add: uj_save_def Let_def observations_add observations_send recorded_def err_def)

lemma uj_search_address_obs:
  "observations n (uj_search_address res t w) =
     observations n w @
     recorded n searchDuration (elapsed res) (err (uj_search_address_success res))
       (uj_search_address_success res)"
  by (simp add: uj_search_address_def Let_def observations_add observations_send recorded_def
      err_def)

lemma uj_search_obs:
  "observations n (uj_search res t w) =
     observations n w @
     recorded n searchDuration (elapsed res) (err (uj_search_success res))
       (uj_search_success res)"
  by (simp add: uj_search_def Let_def observations_add observations_send recorded_def err_def)

lemma uj_create_fst: "fst (uj_create res t Null w) = uj_createdId res"
  by (simp add: uj_create_def uj_createdId_def Let_def)

lemma uj_create_obs:
  "observations n (snd (uj_create res t cl w)) =
     observations n w @
     recorded n createListingDuration (elapsed res) 0 (uj_create_success res)"
  by (simp add: uj_create_def Let_def observations_add observations_send recorded_def)

lemma uj_push_obs:
  "observations n (uj_push res t w) =
     observations n w @
     recorded n pushListingDuration (elapsed res) (err (uj_push_success res))
       (status res = 200 \<or> status res = 201)"
  by (simp add: uj_push_def Let_def observations_add observations_send recorded_def err_def)

lemmas uj_step_obs =
  uj_browse_fst uj_browse_obs uj_detail_obs uj_save_obs uj_search_address_obs uj_search_obs
  uj_create_fst uj_create_obs uj_push_obs

lemma uj_default_obs:
  "\<exists>w'. uj_default c rs w = Some w' \<and> (\<forall>n. observations n w' = observations n w @ uj_obs c rs n)"
proof (cases "uj_login_success (rs 1)")
  case False
  then show ?thesis
    using uj_login_obs[of _ "rs 1" w]
    by (simp add: uj_default_def uj_login_eq uj_obs_def)
next
  case True
  then show ?thesis
    using uj_login_truthy[OF True] uj_login_obs[of _ "rs 1" w]
    by (simp add: uj_default_def uj_login_eq Let_def split_beta uj_step_obs uj_obs_def)
qed

subsection \<open>The admin journey\<close>

lemma adminLogin_eq:
  "adminLogin res w =
     Some (if adminLogin_success res
           then (token_of res,
                 add successfulOperations 1 (add errorRate 0 (add adminLoginDuration (elapsed res)
                   (send ''POST'' [Lit BASE_URL, Lit ''/v1/auth/admin''] None w))))
           else (Null, add errorRate 1 (add adminLoginDuration (elapsed res)
                   (send ''POST'' [Lit BASE_URL, Lit ''/v1/auth/admin''] None w))))"
  by (simp add: adminLogin_def adminLogin_success_def Let_def login_token)

lemma adminLogin_truthy: "adminLogin_success res \<Longrightarrow> truthy (token_of res)"
  by (simp add: adminLogin_success_def login_truthy)

lemma adminLogin_obs:
  "observations n (snd (the (adminLogin res w))) =
     observations n w @
     recorded n adminLoginDuration (elapsed res) (err (adminLogin_success res))
       (adminLogin_success res)"
  by (simp add: adminLogin_eq observations_add observations_send recorded_def err_def)

lemma admin_filter_pending_fst:
  "fst (admin_filter_pending c res t Null w) = admin_pendingId c res"
  by (simp add: admin_filter_pending_def admin_pendingId_def Let_def)

lemma admin_filter_pending_obs:
  "observations n (snd (admin_filter_pending c res t l w)) =
     observations n w @
     recorded n filterListingsDuration (elapsed res) (err (admin_filter_pending_success res))
       (admin_filter_pending_success res)"
  by (simp add: admin_filter_pending_def Let_def observations_add observations_send recorded_def
      err_def)

lemma admin_filter_obs:
  "observations n (admin_filter res t w) =
     observations n w @
     recorded n filterListingsDuration (elapsed res) (err (admin_filter_success res))
       (admin_filter_success res)"
  by (simp add: admin_filter_def Let_def observations_add observations_send recorded_def err_def)

lemma admin_update_obs:
  "observations n (admin_update res t l w) =
     observations n w @ recorded n updateStatusDuration (elapsed res) 0 (status res = 200)"
  by (simp add: admin_update_def Let_def observations_add observations_send recorded_def)

lemma admin_reports_fst:
  "fst (admin_reports c res t l Null w) = admin_reportId c res"
  by (simp add: admin_reports_def admin_reportId_def Let_def)

lemma admin_reports_obs:
  "observations n (snd (admin_reports c res t l r w)) =
     observations n w @ recorded n getReportsDuration (elapsed res) 0 (status res = 200)"
  by (simp add: admin_reports_def Let_def observations_add observations_send recorded_def)

lemma admin_resolve_obs:
  "observations n (admin_resolve res t r w) =
     observations n w @ recorded n resolveReportDuration (elapsed res) 0 (status res = 200)"
  by (simp add: admin_resolve_def Let_def observations_add observations_send recorded_def)

lemmas admin_step_obs =
  admin_filter_pending_fst admin_filter_pending_obs admin_filter_obs admin_update_obs
  admin_reports_fst admin_reports_obs admin_resolve_obs

lemma admin_default_obs:
  "\<exists>w'. admin_default c rs w = Some w' \<and>
        (\<forall>n. observations n w' = observations n w @ admin_obs c rs n)"
proof (cases "adminLogin_success (rs 1)")
  case False
  then show ?thesis
    using adminLogin_obs[of _ "rs 1" w]
    by (simp add: admin_default_def adminLogin_eq admin_obs_def)
next
  case True
  then show ?thesis
    using adminLogin_truthy[OF True] adminLogin_obs[of _ "rs 1" w]
    by (simp add: admin_default_def adminLogin_eq Let_def split_beta admin_step_obs admin_obs_def)
qed

subsection \<open>The full API test\<close>

lemma full_login_eq:
  "full_login res w =
     Some (if full_login_success res
           then (token_of res,
                 add successfulOperations 1 (add errorRate 0 (add loginDuration (elapsed res)
                   (send ''POST'' [Lit BASE_URL, Lit ''/v1/auth''] None w))))
           else (Null, add errorRate 1 (add loginDuration (elapsed res)
                   (send ''POST'' [Lit BASE_URL, Lit ''/v1/auth''] None w))))"
  by (simp add: full_login_def full_login_success_def Let_def login_token)

lemma full_login_truthy: "full_login_success res \<Longrightarrow> truthy (token_of res)"
  by (simp add: full_login_success_def login_truthy)

lemma full_login_obs:
  "observations n (snd (the (full_login res w))) =
     observations n w @
     recorded n loginDuration (elapsed res) (err (full_login_success res))
       (full_login_success res)"
  by (simp add: full_login_eq observations_add observations_send recorded_def err_def)

lemma full_listings_fst: "fst (full_listings c res Null w) = full_listingId c res"
  by (simp add: full_listings_def full_listingId_def Let_def)

lemma full_listings_obs:
  "observations n (snd (full_listings c res l w)) =
     observations n w @
     recorded n listingsDuration (elapsed res) (err (full_listings_success c res))
       (full_listings_success c res)"
  by (simp add: full_listings_def Let_def observations_add observations_send recorded_def err_def)

lemma full_detail_obs:
  "observations n (full_detail res l w) =
     observations n w @
     recorded n listingDetailDuration (elapsed res) (err (full_detail_success res))
       (full_detail_success res)"
  by (simp add: full_detail_def Let_def observations_add observations_send recorded_def err_def)

lemma full_my_listings_obs:
  "observations n (full_my_listings res t w) =
     observations n w @
     recorded n myListingsDuration (elapsed res) (err (full_my_listings_success res))
       (full_my_listings_success res)"
  by (simp add: full_my_listings_def Let_def observations_add observations_send recorded_def
      err_def)

lemma full_stats_province_obs:
  "observations n (full_stats_province res w) =
     observations n w @
     recorded n statsProvinceDuration (elapsed res) (err (full_stats_success res))
       (full_stats_success res)"
  by (simp add: full_stats_province_def Let_def observations_add observations_send recorded_def
      err_def)

lemma full_stats_category_obs:
  "observations n (full_stats_category res w) =
     observations n w @
     recorded n statsCategoryDuration (elapsed res) (err (full_stats_success res))
       (full_stats_success res)"
  by (simp add: full_stats_category_def Let_def observations_add observations_send recorded_def
      err_def)

lemma full_save_obs:
  "observations n (full_save res t w) =
     observations n w @
     recorded n saveListingDuration (elapsed res) (err (full_save_success res))
       (full_save_success res)"
  by (simp add: full_save_def Let_def observations_add observations_send recorded_def err_def)

lemma full_create_fst: "fst (full_create res t Null w) = full_createdId res"
  by (simp add: full_create_def full_createdId_def Let_def)

lemma full_create_obs:
  "observations n (snd (full_create res t cl w)) =
     observations n w @
     recorded n createListingDuration (elapsed res) 0 (status res = 200 \<or> status res = 201)"
  by (simp add: full_create_def Let_def observations_add observations_send recorded_def)

lemma full_push_obs:
  "observations n (full_push res t w) =
     observations n w @
     recorded n pushListingDuration (elapsed res) (err (full_push_success res))
       (status res = 200 \<or> status res = 201)"
  by (simp add: full_push_def Let_def observations_add observations_send recorded_def err_def)

lemmas full_step_obs =
  full_listings_fst full_listings_obs full_detail_obs full_my_listings_obs
  full_stats_province_obs full_stats_category_obs full_save_obs full_create_fst
  full_create_obs full_push_obs

lemma full_default_obs:
  "\<exists>w'. full_default c rs w = Some w' \<and>
        (\<forall>n. observations n w' = observations n w @ full_obs c rs n)"
proof (cases "full_login_success (rs 1)")
  case False
  then show ?thesis
    using full_login_obs[of _ "rs 1" w]
    by (simp add: full_default_def full_login_eq full_obs_def)
next
  case True
  then show ?thesis
    using full_login_truthy[OF True] full_login_obs[of _ "rs 1" w]
    by (simp add: full_default_def full_login_eq Let_def split_beta full_step_obs full_obs_def)
qed

section \<open>Runs\<close>

lemma run_obs:
  assumes step: "\<And>rs w. \<exists>w'. iteration rs w = Some w' \<and>
                   (\<forall>n. observations n w' = observations n w @ obs rs n)"
  shows "\<exists>w'. run iteration iters w = Some w' \<and>
           (\<forall>n. observations n w' = observations n w @ concat (map (\<lambda>rs. obs rs n) iters))"
proof (induction iters arbitrary: w)
  case Nil
  show ?case by simp
next
  case (Cons rs iters)
  from step obtain w1 where w1: "iteration rs w = Some w1"
    "\<And>n. observations n w1 = observations n w @ obs rs n" by blast
  from Cons.IH [of w1] obtain w2 where w2: "run iteration iters w1 = Some w2"
    "\<And>n. observations n w2 = observations n w1 @ concat (map (\<lambda>rs. obs rs n) iters)" by blast
  show ?case using w1 w2 by simp
qed

lemma concat_all_ones:
  "(\<And>rs. rs \<in> set iters \<Longrightarrow> f rs = [1::int]) \<Longrightarrow> concat (map f iters) = replicate (length iters) 1"
  by (induction iters) simp_all

lemma concat_all_empty:
  "(\<And>rs. rs \<in> set iters \<Longrightarrow> f rs = []) \<Longrightarrow> concat (map f iters) = []"
  by (induction iters) simp_all

lemma rate_all_ones: "0 < k \<Longrightarrow> rate (replicate k 1) = 1"
  by (simp add: rate_def)

lemma recorded_other:
  "n \<noteq> trend \<Longrightarrow> n \<noteq> errorRate \<Longrightarrow> n \<noteq> successfulOperations \<Longrightarrow> recorded n trend ms e c = []"
  by (simp add: recorded_def)

lemma all_failed_run:
  assumes step: "\<And>rs w. \<exists>w'. iteration rs w = Some w' \<and>
                   (\<forall>n. observations n w' = observations n w @ obs rs n)"
    and fail: "\<And>rs n. rs \<in> set iters \<Longrightarrow>
                 obs rs n = (if n = trend then [elapsed (rs 1)] else if n = errorRate then [1] else [])"
    and ne: "iters \<noteq> []" and trend: "trend \<noteq> errorRate"
  shows "\<exists>w'. run iteration iters fresh_world = Some w' \<and>
           rate (observations errorRate w') = 1 \<and>
           (\<forall>n. n \<noteq> trend \<and> n \<noteq> errorRate \<longrightarrow> observations n w' = [])"
proof -
  from run_obs [of iteration obs iters fresh_world, OF step]
  obtain w' where w': "run iteration iters fresh_world = Some w'"
    "\<And>n. observations n w' = concat (map (\<lambda>rs. obs rs n) iters)"
    by (auto simp: observations_fresh)
  have "concat (map (\<lambda>rs. obs rs errorRate) iters) = replicate (length iters) 1"
    using fail trend by (intro concat_all_ones) simp
  then have r: "rate (observations errorRate w') = 1"
    using ne by (simp add: w' rate_all_ones)
  have "concat (map (\<lambda>rs. obs rs n) iters) = []" if "n \<noteq> trend" "n \<noteq> errorRate" for n
    using fail that by (intro concat_all_empty) simp
  then show ?thesis using w' r by simp
qed

section \<open>The login step\<close>

lemma core_login_eq:
  "core_login res w =
     Some (if core_login_success res
           then (token_of res,
                 add errorRate 0 (add loginDuration (elapsed res)
                   (send ''POST'' [Lit BASE_URL, Lit ''/v1/auth''] None w)))
           else (Null, add errorRate 1 (add loginDuration (elapsed res)
                   (send ''POST'' [Lit BASE_URL, Lit ''/v1/auth''] None w))))"
  by (simp add: core_login_def core_login_success_def Let_def login_token)

lemma login_needs_200:
  "status res \<noteq> 200 \<Longrightarrow> \<not> check res [status_is [200], has_data_field ''accessToken'']"
  by (simp add: check_def status_is_def)

lemma login_needs_body:
  "body res = None \<or> body res = Some Null \<Longrightarrow>
     \<not> check res [status_is [200], has_data_field ''accessToken'']"
  by (auto simp: check_def has_data_field_def try_catch_def JSON_parse_def)

text \<open>
  C8. Whatever response the request capability returns, the login returns a value and
  throws nothing, in the user journey and in the core script alike. When its checks
  fail it returns \<^verbatim>\<open>null\<close> and adds one observation, 1, to the error rate (and nothing to
  the counter of successful operations). A transport failure makes the checks fail: a
  status other than 200, a body that does not parse, or a \<^verbatim>\<open>null\<close> body.
\<close>

theorem login_total_failure_recorded:
  "(\<exists>t w'. uj_login res w = Some (t, w') \<and>
       (\<not> uj_login_success res \<longrightarrow>
          t = Null \<and> observations errorRate w' = observations errorRate w @ [1] \<and>
          observations successfulOperations w' = observations successfulOperations w)) \<and>
   (\<exists>t w'. core_login res w = Some (t, w') \<and>
       (\<not> core_login_success res \<longrightarrow>
          t = Null \<and> observations errorRate w' = observations errorRate w @ [1])) \<and>
   (status res \<noteq> 200 \<or> body res = None \<or> body res = Some Null \<longrightarrow>
      \<not> uj_login_success res \<and> \<not> core_login_success res)"
proof (intro conjI)
  show "\<exists>t w'. uj_login res w = Some (t, w') \<and>
       (\<not> uj_login_success res \<longrightarrow>
          t = Null \<and> observations errorRate w' = observations errorRate w @ [1] \<and>
          observations successfulOperations w' = observations successfulOperations w)"
    by (simp add: uj_login_eq observations_add observations_send)
  show "\<exists>t w'. core_login res w = Some (t, w') \<and>
       (\<not> core_login_success res \<longrightarrow>
          t = Null \<and> observations errorRate w' = observations errorRate w @ [1])"
    by (simp add: core_login_eq observations_add observations_send)
  show "status res \<noteq> 200 \<or> body res = None \<or> body res = Some Null \<longrightarrow>
      \<not> uj_login_success res \<and> \<not> core_login_success res"
    using login_needs_200[of res] login_needs_body[of res]
    by (auto simp: uj_login_success_def core_login_success_def)
qed

theorem login_total_failure_recorded_witness:
  "status transport_failure \<noteq> 200 \<and> body transport_failure = Some Null \<and>
   \<not> uj_login_success transport_failure \<and> \<not> core_login_success transport_failure \<and>
   (\<exists>w'. uj_login transport_failure fresh_world = Some (Null, w') \<and>
         observations errorRate w' = [1] \<and> observations successfulOperations w' = []) \<and>
   (\<exists>w'. core_login transport_failure fresh_world = Some (Null, w') \<and>
         observations errorRate w' = [1])"
  using login_total_failure_recorded [of transport_failure fresh_world]
  by (auto simp: transport_failure_def observations_fresh)

section \<open>A failed login\<close>

lemma uj_obs_login_failed:
  "\<not> uj_login_success (rs 1) \<Longrightarrow>
     uj_obs c rs n = (if n = loginDuration then [elapsed (rs 1)] else if n = errorRate then [1] else [])"
  by (simp add: uj_obs_def recorded_def err_def)

lemma admin_obs_login_failed:
  "\<not> adminLogin_success (rs 1) \<Longrightarrow>
     admin_obs c rs n =
       (if n = adminLoginDuration then [elapsed (rs 1)] else if n = errorRate then [1] else [])"
  by (simp add: admin_obs_def recorded_def err_def)

lemma full_obs_login_failed:
  "\<not> full_login_success (rs 1) \<Longrightarrow>
     full_obs c rs n = (if n = loginDuration then [elapsed (rs 1)] else if n = errorRate then [1] else [])"
  by (simp add: full_obs_def recorded_def err_def)

text \<open>
  C1, as the code has it. In the user journey, the admin journey and the full API test,
  an iteration whose login fails sends the login request, records its duration and one
  observation 1 in the error rate, and ends there without an exception: nothing is
  recorded for any later step. When the login fails in every iteration of a run that
  has at least one, the run completes, no metric but the login's trend and the error
  rate has an observation, and the error rate, the one Rate metric of the scripts,
  where 1 stands for a failure, ends at 1. (In smartrent-api-test.js the public groups
  run without a token: the statement does not hold there.)
\<close>

theorem failed_login_ends_iteration:
  "(\<not> uj_login_success (rs 1) \<longrightarrow>
      uj_default c rs w =
        Some (add errorRate 1 (add loginDuration (elapsed (rs 1))
               (send ''POST'' [Lit BASE_URL, Lit ''/v1/auth''] None w)))) \<and>
   (\<not> adminLogin_success (rs 1) \<longrightarrow>
      admin_default c rs w =
        Some (add errorRate 1 (add adminLoginDuration (elapsed (rs 1))
               (send ''POST'' [Lit BASE_URL, Lit ''/v1/auth/admin''] None w)))) \<and>
   (\<not> full_login_success (rs 1) \<longrightarrow>
      full_default c rs w =
        Some (add errorRate 1 (add loginDuration (elapsed (rs 1))
               (send ''POST'' [Lit BASE_URL, Lit ''/v1/auth''] None w)))) \<and>
   (iters \<noteq> [] \<and> (\<forall>it \<in> set iters. \<not> uj_login_success (it 1)) \<longrightarrow>
      (\<exists>w'. run (uj_default c) iters fresh_world = Some w' \<and>
            rate (observations errorRate w') = 1 \<and>
            (\<forall>n. n \<noteq> loginDuration \<and> n \<noteq> errorRate \<longrightarrow> observations n w' = []))) \<and>
   (iters \<noteq> [] \<and> (\<forall>it \<in> set iters. \<not> adminLogin_success (it 1)) \<longrightarrow>
      (\<exists>w'. run (admin_default c) iters fresh_world = Some w' \<and>
            rate (observations errorRate w') = 1 \<and>
            (\<forall>n. n \<noteq> adminLoginDuration \<and> n \<noteq> errorRate \<longrightarrow> observations n w' = []))) \<and>
   (iters \<noteq> [] \<and> (\<forall>it \<in> set iters. \<not> full_login_success (it 1)) \<longrightarrow>
      (\<exists>w'. run (full_default c) iters fresh_world = Some w' \<and>
            rate (observations errorRate w') = 1 \<and>
            (\<forall>n. n \<noteq> loginDuration \<and> n \<noteq> errorRate \<longrightarrow> observations n w' = [])))"
proof (intro conjI impI)
  assume "\<not> uj_login_success (rs 1)"
  then show "uj_default c rs w =
        Some (add errorRate 1 (add loginDuration (elapsed (rs 1))
               (send ''POST'' [Lit BASE_URL, Lit ''/v1/auth''] None w)))"
    by (simp add: uj_default_def uj_login_eq)
next
  assume "\<not> adminLogin_success (rs 1)"
  then show "admin_default c rs w =
        Some (add errorRate 1 (add adminLoginDuration (elapsed (rs 1))
               (send ''POST'' [Lit BASE_URL, Lit ''/v1/auth/admin''] None w)))"
    by (simp add: admin_default_def adminLogin_eq)
next
  assume "\<not> full_login_success (rs 1)"
  then show "full_default c rs w =
        Some (add errorRate 1 (add loginDuration (elapsed (rs 1))
               (send ''POST'' [Lit BASE_URL, Lit ''/v1/auth''] None w)))"
    by (simp add: full_default_def full_login_eq)
next
  assume a: "iters \<noteq> [] \<and> (\<forall>it \<in> set iters. \<not> uj_login_success (it 1))"
  show "\<exists>w'. run (uj_default c) iters fresh_world = Some w' \<and>
            rate (observations errorRate w') = 1 \<and>
            (\<forall>n. n \<noteq> loginDuration \<and> n \<noteq> errorRate \<longrightarrow> observations n w' = [])"
    by (rule all_failed_run [where obs = "uj_obs c"])
       (use a in \<open>simp_all add: uj_default_obs uj_obs_login_failed\<close>)
next
  assume a: "iters \<noteq> [] \<and> (\<forall>it \<in> set iters. \<not> adminLogin_success (it 1))"
  show "\<exists>w'. run (admin_default c) iters fresh_world = Some w' \<and>
            rate (observations errorRate w') = 1 \<and>
            (\<forall>n. n \<noteq> adminLoginDuration \<and> n \<noteq> errorRate \<longrightarrow> observations n w' = [])"
    by (rule all_failed_run [where obs = "admin_obs c"])
       (use a in \<open>simp_all add: admin_default_obs admin_obs_login_failed\<close>)
next
  assume a: "iters \<noteq> [] \<and> (\<forall>it \<in> set iters. \<not> full_login_success (it 1))"
  show "\<exists>w'. run (full_default c) iters fresh_world = Some w' \<and>
            rate (observations errorRate w') = 1 \<and>
            (\<forall>n. n \<noteq> loginDuration \<and> n \<noteq> errorRate \<longrightarrow> observations n w' = [])"
    by (rule all_failed_run [where obs = "full_obs c"])
       (use a in \<open>simp_all add: full_default_obs full_obs_login_failed\<close>)
qed

lemma login_fails_on_transport_failure:
  "\<not> check transport_failure [status_is [200], has_data_field ''accessToken'']"
  by (simp add: check_def status_is_def transport_failure_def)

theorem failed_login_ends_iteration_witness:
  "\<not> uj_login_success (all_fail 1) \<and> \<not> adminLogin_success (all_fail 1) \<and>
   \<not> full_login_success (all_fail 1) \<and>
   map_option metrics (uj_default no_coercion all_fail fresh_world) =
     Some [(''login_duration'', 30000), (''errors'', 1)] \<and>
   map_option metrics (admin_default no_coercion all_fail fresh_world) =
     Some [(''admin_login_duration'', 30000), (''errors'', 1)] \<and>
   map_option metrics (full_default no_coercion all_fail fresh_world) =
     Some [(''login_duration'', 30000), (''errors'', 1)] \<and>
   (\<exists>w'. run (uj_default no_coercion) [all_fail, all_fail] fresh_world = Some w' \<and>
         rate (observations errorRate w') = 1 \<and>
         observations listingsDuration w' = []) \<and>
   (\<exists>w'. run (admin_default no_coercion) [all_fail, all_fail] fresh_world = Some w' \<and>
         rate (observations errorRate w') = 1 \<and>
         observations filterListingsDuration w' = []) \<and>
   (\<exists>w'. run (full_default no_coercion) [all_fail, all_fail] fresh_world = Some w' \<and>
         rate (observations errorRate w') = 1 \<and>
         observations listingsDuration w' = [])"
proof -
  have f: "\<not> uj_login_success (all_fail 1)" "\<not> adminLogin_success (all_fail 1)"
    "\<not> full_login_success (all_fail 1)"
    using login_fails_on_transport_failure
    by (simp_all add: uj_login_success_def adminLogin_success_def full_login_success_def
        all_fail_def)
  note t = failed_login_ends_iteration
    [of all_fail no_coercion fresh_world "[all_fail, all_fail]"]
  have e: "elapsed (all_fail n) = 30000" for n
    by (simp add: all_fail_def transport_failure_def)
  have 1: "map_option metrics (uj_default no_coercion all_fail fresh_world) =
     Some [(''login_duration'', 30000), (''errors'', 1)]"
    using t [THEN conjunct1] f(1) by (simp add: add_def send_def fresh_world_def e)
  have 2: "map_option metrics (admin_default no_coercion all_fail fresh_world) =
     Some [(''admin_login_duration'', 30000), (''errors'', 1)]"
    using t [THEN conjunct2, THEN conjunct1] f(2)
    by (simp add: add_def send_def fresh_world_def e)
  have 3: "map_option metrics (full_default no_coercion all_fail fresh_world) =
     Some [(''login_duration'', 30000), (''errors'', 1)]"
    using t [THEN conjunct2, THEN conjunct2, THEN conjunct1] f(3)
    by (simp add: add_def send_def fresh_world_def e)
  have 4: "\<exists>w'. run (uj_default no_coercion) [all_fail, all_fail] fresh_world = Some w' \<and>
         rate (observations errorRate w') = 1 \<and> observations listingsDuration w' = []"
    using t [THEN conjunct2, THEN conjunct2, THEN conjunct2, THEN conjunct1] f(1)
    by fastforce
  have 5: "\<exists>w'. run (admin_default no_coercion) [all_fail, all_fail] fresh_world = Some w' \<and>
         rate (observations errorRate w') = 1 \<and> observations filterListingsDuration w' = []"
    using t [THEN conjunct2, THEN conjunct2, THEN conjunct2, THEN conjunct2, THEN conjunct1] f(2)
    by fastforce
  have 6: "\<exists>w'. run (full_default no_coercion) [all_fail, all_fail] fresh_world = Some w' \<and>
         rate (observations errorRate w') = 1 \<and> observations listingsDuration w' = []"
    using t [THEN conjunct2, THEN conjunct2, THEN conjunct2, THEN conjunct2, THEN conjunct2] f(3)
    by fastforce
  show ?thesis using f 1 2 3 4 5 6 by blast
qed

text \<open>
  C1, as the spec states it, fails twice. In smartrent-api-test.js an iteration whose
  login fails still records the later steps: here every request fails, and the trends of
  the listings and of the search have their observations. And when the login fails in an
  iteration of the user journey that is the whole run, the rate metric ends at 1, not 0.
\<close>

theorem failed_login_counterexample:
  "\<not> api_login_success (all_fail 1) \<and>
   map_option metrics (api_default no_coercion all_fail fresh_world) =
     Some [(''login_duration'', 30000), (''errors'', 1),
           (''get_listings_duration'', 30000), (''errors'', 1),
           (''search_duration'', 30000), (''errors'', 1),
           (''errors'', 1), (''errors'', 1)] \<and>
   \<not> uj_login_success (all_fail 1) \<and>
   map_option (\<lambda>w. rate (observations errorRate w))
     (run (uj_default no_coercion) [all_fail] fresh_world) = Some 1"
proof -
  have l: "\<not> api_login_success (all_fail 1)" "\<not> uj_login_success (all_fail 1)"
    using login_fails_on_transport_failure
    by (simp_all add: api_login_success_def uj_login_success_def all_fail_def)
  have a: "map_option metrics (api_default no_coercion all_fail fresh_world) =
     Some [(''login_duration'', 30000), (''errors'', 1),
           (''get_listings_duration'', 30000), (''errors'', 1),
           (''search_duration'', 30000), (''errors'', 1),
           (''errors'', 1), (''errors'', 1)]"
    using l(1)
    by (simp add: api_default_def api_login_def api_get_listings_def api_search_def
        api_listing_by_id_def api_stats_provinces_def api_stats_categories_def Let_def
        add_def send_def fresh_world_def check_def status_is_def all_fail_def
        transport_failure_def)
  have u: "map_option (\<lambda>w. rate (observations errorRate w))
     (run (uj_default no_coercion) [all_fail] fresh_world) = Some 1"
    using l(2)
    by (simp add: uj_default_def uj_login_eq observations_add observations_send
        observations_fresh rate_def)
  show ?thesis using l a u by simp
qed

section \<open>One observation in the error rate for each executed step\<close>



section \<open>The counter of successful operations\<close>




section \<open>Guards\<close>






section \<open>The detail step over a run\<close>







section \<open>An iteration and the state it finds\<close>














section \<open>The reports step of the admin journey\<close>








section \<open>The summary\<close>








lemma line_agree:
  "d1 name = d2 name \<Longrightarrow>
     p95_threshold_line d1 ind name target shown = p95_threshold_line d2 ind name target shown"
  "d1 name = d2 name \<Longrightarrow>
     rate_threshold_line d1 ind name target shown = rate_threshold_line d2 ind name target shown"
  "d1 name = d2 name \<Longrightarrow> full_rate_threshold_line d1 ind name = full_rate_threshold_line d2 ind name"
  "d1 name = d2 name \<Longrightarrow> count_line d1 ind name label = count_line d2 ind name label"
  "d1 ''http_req_duration'' = d2 ''http_req_duration'' \<Longrightarrow>
     full_p95_threshold_line d1 ind = full_p95_threshold_line d2 ind"
  "d1 ''http_req_duration'' = d2 ''http_req_duration'' \<Longrightarrow>
     full_response_time d1 ind = full_response_time d2 ind"
  "d1 ''http_reqs'' = d2 ''http_reqs'' \<Longrightarrow> requests_lines d1 ind = requests_lines d2 ind"
  by (simp_all add: p95_threshold_line_def rate_threshold_line_def full_rate_threshold_line_def
      count_line_def full_p95_threshold_line_def full_response_time_def requests_lines_def)

lemma forEach_step_lines_agree:
  "list_all (\<lambda>k. d1 k = d2 k) (map fst steps) \<Longrightarrow>
     forEach (step_lines d1 ind) steps s = forEach (step_lines d2 ind) steps s"
proof (induction steps arbitrary: s)
  case Nil
  show ?case by simp
next
  case (Cons m steps)
  then have "step_lines d1 ind m s = step_lines d2 ind m s"
    by (simp add: step_lines_def)
  then show ?case using Cons by (simp split: option.splits)
qed

lemma forEach_full_step_lines_agree:
  "list_all (\<lambda>k. d1 k = d2 k) (map fst steps) \<Longrightarrow>
     forEach (full_step_lines d1 ind) steps s = forEach (full_step_lines d2 ind) steps s"
proof (induction steps arbitrary: s)
  case Nil
  show ?case by simp
next
  case (Cons m steps)
  then have "full_step_lines d1 ind m s = full_step_lines d2 ind m s"
    by (simp add: full_step_lines_def)
  then show ?case using Cons by (simp split: option.splits)
qed

lemma journey_textSummary_agree:
  assumes "list_all (\<lambda>k. d1 k = d2 k)
     (''http_req_duration'' # ''http_req_failed'' # ''http_reqs'' #
      ''successful_operations'' # map fst steps)"
  shows "journey_textSummary title heading steps d1 opts =
         journey_textSummary title heading steps d2 opts"
proof -
  have s: "forEach (step_lines d1 ind) steps s = forEach (step_lines d2 ind) steps s" for ind s
    using assms by (intro forEach_step_lines_agree) simp
  have k: "d1 ''http_req_duration'' = d2 ''http_req_duration''"
    "d1 ''http_req_failed'' = d2 ''http_req_failed''" "d1 ''http_reqs'' = d2 ''http_reqs''"
    "d1 ''successful_operations'' = d2 ''successful_operations''"
    using assms by simp_all
  show ?thesis
    unfolding journey_textSummary_def
    by (simp only: s line_agree(1) [of d1 "''http_req_duration''" d2, OF k(1)]
        line_agree(2) [of d1 "''http_req_failed''" d2, OF k(2)]
        line_agree(7) [of d1 d2, OF k(3)]
        line_agree(4) [of d1 "''successful_operations''" d2, OF k(4)])
qed

lemma full_textSummary_agree:
  assumes "list_all (\<lambda>k. d1 k = d2 k) full_reads"
  shows "full_textSummary d1 opts = full_textSummary d2 opts"
proof -
  have s: "forEach (full_step_lines d1 ind)
                [(''login_duration'', ''1. Login'', 2000),
                 (''get_listings_duration'', ''2. Get Listings'', 2000),
                 (''listing_detail_duration'', ''3. Listing Detail'', 1000),
                 (''my_listings_duration'', ''4. My Listings'', 2000),
                 (''stats_province_duration'', ''5. Stats Province'', 1000),
                 (''stats_category_duration'', ''6. Stats Category'', 1000),
                 (''save_listing_duration'', ''7. Save Listing'', 1000),
                 (''create_listing_duration'', ''8. Create Listing'', 3000),
                 (''push_listing_duration'', ''9. Push Listing'', 1000)] s =
           forEach (full_step_lines d2 ind)
                [(''login_duration'', ''1. Login'', 2000),
                 (''get_listings_duration'', ''2. Get Listings'', 2000),
                 (''listing_detail_duration'', ''3. Listing Detail'', 1000),
                 (''my_listings_duration'', ''4. My Listings'', 2000),
                 (''stats_province_duration'', ''5. Stats Province'', 1000),
                 (''stats_category_duration'', ''6. Stats Category'', 1000),
                 (''save_listing_duration'', ''7. Save Listing'', 1000),
                 (''create_listing_duration'', ''8. Create Listing'', 3000),
                 (''push_listing_duration'', ''9. Push Listing'', 1000)] s" for ind s
    using assms
    by (intro forEach_full_step_lines_agree) (simp add: full_reads_def full_trends_def)
  have k: "d1 ''http_req_duration'' = d2 ''http_req_duration''"
    "d1 ''http_req_failed'' = d2 ''http_req_failed''" "d1 ''errors'' = d2 ''errors''"
    "d1 ''http_reqs'' = d2 ''http_reqs''" "d1 ''iterations'' = d2 ''iterations''"
    "d1 ''successful_operations'' = d2 ''successful_operations''"
    using assms by (simp_all add: full_reads_def)
  show ?thesis
    unfolding full_textSummary_def
    by (simp only: s line_agree(5) [of d1 d2, OF k(1)] line_agree(6) [of d1 d2, OF k(1)]
        line_agree(3) [of d1 "''http_req_failed''" d2, OF k(2)]
        line_agree(3) [of d1 "''errors''" d2, OF k(3)]
        line_agree(7) [of d1 d2, OF k(4)]
        line_agree(4) [of d1 "''iterations''" d2, OF k(5)]
        line_agree(4) [of d1 "''successful_operations''" d2, OF k(6)])
qed







text \<open>
  C7. The summary is a function of the snapshot and the options, and of nothing else;
  of the snapshot it reads only the metrics it names. Two snapshots that agree on those
  (the same snapshot taken twice, to begin with) give the same verdicts and the same
  text, or throw alike.
\<close>

theorem summary_depends_on_snapshot_only:
  "(list_all (\<lambda>k. d1 k = d2 k) uj_reads \<longrightarrow> uj_textSummary d1 opts = uj_textSummary d2 opts) \<and>
   (list_all (\<lambda>k. d1 k = d2 k) admin_reads \<longrightarrow>
      admin_textSummary d1 opts = admin_textSummary d2 opts) \<and>
   (list_all (\<lambda>k. d1 k = d2 k) full_reads \<longrightarrow>
      full_textSummary d1 opts = full_textSummary d2 opts)"
proof (intro conjI impI)
  assume "list_all (\<lambda>k. d1 k = d2 k) uj_reads"
  then show "uj_textSummary d1 opts = uj_textSummary d2 opts"
    unfolding uj_textSummary_def
    by (intro journey_textSummary_agree) (simp add: uj_reads_def uj_trends_def)
next
  assume "list_all (\<lambda>k. d1 k = d2 k) admin_reads"
  then show "admin_textSummary d1 opts = admin_textSummary d2 opts"
    unfolding admin_textSummary_def
    by (intro journey_textSummary_agree) (simp add: admin_reads_def admin_trends_def)
next
  assume "list_all (\<lambda>k. d1 k = d2 k) full_reads"
  then show "full_textSummary d1 opts = full_textSummary d2 opts"
    by (rule full_textSummary_agree)
qed

theorem summary_depends_on_snapshot_only_witness:
  "list_all (\<lambda>k. slow_run k = slow_run_vus k) uj_reads \<and>
   list_all (\<lambda>k. slow_run k = slow_run_vus k) admin_reads \<and>
   list_all (\<lambda>k. slow_run k = slow_run_vus k) full_reads \<and>
   slow_run ''vus'' \<noteq> slow_run_vus ''vus'' \<and>
   uj_textSummary slow_run summary_options = uj_textSummary slow_run_vus summary_options \<and>
   admin_textSummary slow_run summary_options = admin_textSummary slow_run_vus summary_options \<and>
   full_textSummary slow_run summary_options = full_textSummary slow_run_vus summary_options"
proof -
  have r: "list_all (\<lambda>k. slow_run k = slow_run_vus k) uj_reads"
    "list_all (\<lambda>k. slow_run k = slow_run_vus k) admin_reads"
    "list_all (\<lambda>k. slow_run k = slow_run_vus k) full_reads"
    by (simp_all add: slow_run_vus_def uj_reads_def admin_reads_def full_reads_def
        uj_trends_def admin_trends_def full_trends_def)
  have v: "slow_run ''vus'' \<noteq> slow_run_vus ''vus''"
    by (simp add: slow_run_vus_def slow_run_def)
  show ?thesis
    using summary_depends_on_snapshot_only [of slow_run slow_run_vus summary_options] r v
    by blast
qed

end
